theory Spec2Isabelle
  imports Main
begin

section \<open>The rule no-server-imports of eslint-plugin-no-server-imports\<close>

text \<open>
  A shallow embedding of \<^verbatim>\<open>packages/eslint-plugin-no-server-imports/src/index.ts\<close>.
  The host (the parser, the scope manager, the traversal that dispatches the
  visitor callbacks) and the glob library are not part of the repository; what the
  rule reads from them is data of the model or a parameter of it.
\<close>

subsection \<open>Configuration\<close>

definition DEFAULT_SERVER_MODULES :: "string list" where
  "DEFAULT_SERVER_MODULES = [
    ''pino'', ''pino-pretty'', ''pino-roll'', ''winston'', ''bunyan'', ''better-sqlite3'',
    ''pg'', ''mysql2'', ''mongodb'', ''mongoose'', ''prisma'', ''@prisma/client'',
    ''drizzle-orm'', ''kysely'', ''@libsql/client'', ''libsql'', ''@mikro-orm/core'',
    ''@mikro-orm/knex'', ''sqlite3'', ''argon2'', ''@node-rs/argon2'', ''bcrypt'',
    ''@node-rs/bcrypt'', ''oslo'', ''@aws-sdk/client-s3'', ''@aws-sdk/s3-presigned-post'',
    ''aws-crt'', ''@appsignal/nodejs'', ''@highlight-run/node'', ''@sentry/profiling-node'',
    ''dd-trace'', ''newrelic'', ''@statsig/statsig-node-core'',
    ''@huggingface/transformers'', ''@xenova/transformers'', ''chromadb-default-embed'',
    ''onnxruntime-node'', ''@blockfrost/blockfrost-js'', ''@jpg-store/lucid-cardano'',
    ''@swc/core'', ''autoprefixer'', ''postcss'', ''prettier'', ''typescript'', ''ts-node'',
    ''ts-morph'', ''webpack'', ''eslint'', ''cypress'', ''jest'', ''playwright'',
    ''playwright-core'', ''puppeteer'', ''puppeteer-core'', ''@sparticuz/chromium'',
    ''@sparticuz/chromium-min'', ''@react-pdf/renderer'', ''mdx-bundler'',
    ''next-mdx-remote'', ''next-seo'', ''shiki'', ''vscode-oniguruma'', ''canvas'',
    ''sharp'', ''config'', ''keyv'', ''node-cron'', ''rimraf'', ''thread-stream'',
    ''@alinea/generated'', ''@zenstackhq/runtime'', ''express'', ''firebase-admin'',
    ''htmlrewriter'', ''cpu-features'', ''isolated-vm'', ''node-pty'',
    ''node-web-audio-api'', ''websocket'', ''zeromq'', ''import-in-the-middle'',
    ''require-in-the-middle'', ''jsdom'', ''ravendb'', ''fs'', ''node:fs'', ''fs/promises'',
    ''node:fs/promises'', ''path'', ''node:path'', ''crypto'', ''node:crypto'',
    ''child_process'', ''node:child_process'', ''os'', ''node:os'', ''net'', ''node:net'',
    ''dns'', ''node:dns'', ''cluster'', ''node:cluster'', ''worker_threads'',
    ''node:worker_threads'']"

definition DEFAULT_SERVER_FILE_PATTERNS :: "string list" where
  "DEFAULT_SERVER_FILE_PATTERNS =
    [''**/*.server.ts'', ''**/*.server.tsx'', ''**/*.server.js'',
     ''**/server/**'', ''**/api/**'', ''**/_server/**'']"

definition DEFAULT_CLIENT_FILE_PATTERNS :: "string list" where
  "DEFAULT_CLIENT_FILE_PATTERNS =
    [''**/routes/**'', ''**/pages/**'', ''**/components/**'', ''**/islands/**'',
     ''**/src/app/**'']"

definition DEFAULT_SERVER_FUNCTION_NAMES :: "string list" where
  "DEFAULT_SERVER_FUNCTION_NAMES =
    [''createServerFn'', ''createIsomorphicFn'', ''server$'', ''action$'', ''loader$'']"

datatype file_mode = ClientOnly | AllNonServer

text \<open>
  \<^verbatim>\<open>RuleOptions\<close>: every field is optional; \<open>None\<close> is the absent
  (\<^verbatim>\<open>undefined\<close>) field.
\<close>

record RuleOptions =
  opt_serverModules :: "string list option"
  opt_serverFilePatterns :: "string list option"
  opt_clientFilePatterns :: "string list option"
  opt_ignoreFiles :: "string list option"
  opt_checkServerOnlyMarker :: "bool option"
  opt_checkServerFunctions :: "bool option"
  opt_serverFunctionNames :: "string list option"
  opt_reportUnusedImports :: "bool option"
  opt_mode :: "file_mode option"
  opt_serverExternalPackages :: "string list option"

text \<open>
  \<^verbatim>\<open>x || d\<close> on an optional array or string enum and \<^verbatim>\<open>x ?? d\<close> on an
  optional boolean both take the default exactly when the field is absent.
\<close>

definition orDefault :: "'a option \<Rightarrow> 'a \<Rightarrow> 'a" where
  "orDefault x d = (case x of None \<Rightarrow> d | Some v \<Rightarrow> v)"

text \<open>The constants that \<^verbatim>\<open>create\<close> computes from the options (lines 508-531).\<close>

record Config =
  serverModules :: "string list"
  serverFilePatterns :: "string list"
  clientFilePatterns :: "string list"
  ignoreFiles :: "string list"
  checkServerOnlyMarker :: bool
  checkServerFunctions :: bool
  serverFunctionNames :: "string list"
  reportUnusedImports :: bool
  mode :: file_mode

definition mergeOptions :: "RuleOptions \<Rightarrow> Config" where
  "mergeOptions options = \<lparr>
     serverModules = DEFAULT_SERVER_MODULES @ orDefault (opt_serverModules options) []
                       @ orDefault (opt_serverExternalPackages options) [],
     serverFilePatterns = DEFAULT_SERVER_FILE_PATTERNS @ orDefault (opt_serverFilePatterns options) [],
     clientFilePatterns = orDefault (opt_clientFilePatterns options) DEFAULT_CLIENT_FILE_PATTERNS,
     ignoreFiles = orDefault (opt_ignoreFiles options) [],
     checkServerOnlyMarker = orDefault (opt_checkServerOnlyMarker options) True,
     checkServerFunctions = orDefault (opt_checkServerFunctions options) True,
     serverFunctionNames = orDefault (opt_serverFunctionNames options) DEFAULT_SERVER_FUNCTION_NAMES,
     reportUnusedImports = orDefault (opt_reportUnusedImports options) True,
     mode = orDefault (opt_mode options) ClientOnly \<rparr>"

definition noOptions :: RuleOptions where
  "noOptions = \<lparr> opt_serverModules = None, opt_serverFilePatterns = None,
     opt_clientFilePatterns = None, opt_ignoreFiles = None, opt_checkServerOnlyMarker = None,
     opt_checkServerFunctions = None, opt_serverFunctionNames = None,
     opt_reportUnusedImports = None, opt_mode = None, opt_serverExternalPackages = None \<rparr>"

subsection \<open>Module classifier\<close>

text \<open>\<^verbatim>\<open>s.startsWith(p)\<close>.\<close>

definition startsWith :: "string \<Rightarrow> string \<Rightarrow> bool" where
  "startsWith s p = (take (length p) s = p)"

text \<open>
  \<^verbatim>\<open>isServerOnlyModule\<close> (lines 587-596). The set built from the module list has
  the list's members, so \<^verbatim>\<open>serverModuleSet.has\<close> is membership in the list.
\<close>

definition isServerOnlyModule :: "Config \<Rightarrow> string \<Rightarrow> bool" where
  "isServerOnlyModule cfg importSource =
     (if importSource \<in> set (serverModules cfg) then True
      else list_ex (\<lambda>m. startsWith importSource (m @ ''/'')) (serverModules cfg))"

subsection \<open>Syntax trees\<close>

text \<open>
  The part of the ESTree/TSESTree node types that the rule reads. A string literal is
  \<open>Literal (StringValue s)\<close>; every other literal is \<open>Literal OtherValue\<close>.
  \<^verbatim>\<open>importKind\<close> and \<^verbatim>\<open>exportKind\<close> are \<^verbatim>\<open>'type'\<close> or \<^verbatim>\<open>'value'\<close>
  (an absent kind compares like \<^verbatim>\<open>'value'\<close>: the code only tests for \<^verbatim>\<open>'type'\<close>).
  \<open>OtherNode\<close> stands for every node type the rule never inspects, with its children.
\<close>

datatype literal_value = StringValue string | OtherValue

datatype decl_kind = ValueKind | TypeKind

datatype node =
    Identifier string
  | Literal literal_value
  | MemberExpression node node
  | CallExpression node "node list"
  | ArrowFunctionExpression "node list"
  | FunctionExpression "node list"
  | ImportExpression node
  | VariableDeclarator node "node option"
  | VariableDeclaration "node list"
  | ExpressionStatement node
  | ImportDefaultSpecifier string
  | ImportNamespaceSpecifier string
  | ImportSpecifier decl_kind string
  | ExportSpecifier decl_kind
  | ImportDeclaration decl_kind "node list" node
  | ExportAllDeclaration decl_kind node
  | ExportNamedDeclaration decl_kind "node option" "node list" "node option"
  | Program "node list"
  | OtherNode "node list"

text \<open>
  The fields are, in this order: \<open>MemberExpression object property\<close>,
  \<open>CallExpression callee arguments\<close>, \<open>ArrowFunctionExpression\<close> and
  \<open>FunctionExpression\<close> with their parameters and body as children,
  \<open>ImportExpression source\<close> (the dynamic \<^verbatim>\<open>import(source)\<close>),
  \<open>VariableDeclarator id init\<close>, \<open>VariableDeclaration declarations\<close>,
  \<open>ExpressionStatement expression\<close>, the import specifiers with the name of
  \<^verbatim>\<open>local\<close> (and \<^verbatim>\<open>importKind\<close> for a named one), \<open>ExportSpecifier exportKind\<close>,
  \<open>ImportDeclaration importKind specifiers source\<close>,
  \<open>ExportAllDeclaration exportKind source\<close>,
  \<open>ExportNamedDeclaration exportKind declaration specifiers source\<close> and
  \<open>Program body\<close>.
\<close>

fun optionToList :: "'a option \<Rightarrow> 'a list" where
  "optionToList None = []"
| "optionToList (Some x) = [x]"

text \<open>The child nodes of a node, in the order the host visits them.\<close>

fun children :: "node \<Rightarrow> node list" where
  "children (Identifier nm) = []"
| "children (Literal v) = []"
| "children (MemberExpression object property) = [object, property]"
| "children (CallExpression callee arguments) = callee # arguments"
| "children (ArrowFunctionExpression cs) = cs"
| "children (FunctionExpression cs) = cs"
| "children (ImportExpression source) = [source]"
| "children (VariableDeclarator ident init) = ident # optionToList init"
| "children (VariableDeclaration declarations) = declarations"
| "children (ExpressionStatement expression) = [expression]"
| "children (ImportDefaultSpecifier nm) = []"
| "children (ImportNamespaceSpecifier nm) = []"
| "children (ImportSpecifier k nm) = []"
| "children (ExportSpecifier k) = []"
| "children (ImportDeclaration k specifiers source) = specifiers @ [source]"
| "children (ExportAllDeclaration k source) = [source]"
| "children (ExportNamedDeclaration k declaration specifiers source) =
     optionToList declaration @ specifiers @ optionToList source"
| "children (Program body) = body"
| "children (OtherNode cs) = cs"

text \<open>
  A node object is identified by its position in the tree: the child indices from
  the node up to the root. Two node objects of one tree are the same object
  (\<^verbatim>\<open>===\<close>) exactly when their positions are equal. \<^verbatim>\<open>node.parent\<close> is the
  tail of the position; the root, at \<open>[]\<close>, has no parent.
\<close>

type_synonym node_ref = "nat list"

text \<open>A node object held by the rule: its position and the node.\<close>

type_synonym node_object = "node_ref \<times> node"

definition argumentRef :: "node_ref \<Rightarrow> nat \<Rightarrow> node_ref" where
  "argumentRef call j = Suc j # call"

definition importSourceRef :: "node_ref \<Rightarrow> node list \<Rightarrow> node_ref" where
  "importSourceRef decl specifiers = length specifiers # decl"

definition exportAllSourceRef :: "node_ref \<Rightarrow> node_ref" where
  "exportAllSourceRef decl = 0 # decl"

definition exportNamedSourceRef :: "node_ref \<Rightarrow> node option \<Rightarrow> node list \<Rightarrow> node_ref" where
  "exportNamedSourceRef decl declaration specifiers =
     (length (optionToList declaration) + length specifiers) # decl"

text \<open>
  The host walks the tree from the root and calls the rule's callback for a node when
  it enters it, parents before children. An entry of the walk is the node's position,
  its ancestors (parent first) and the node.
\<close>

type_synonym visited = "node_ref \<times> node list \<times> node"

function traverse :: "node_ref \<Rightarrow> node list \<Rightarrow> node \<Rightarrow> visited list" where
  "traverse r ancestors n =
     (r, ancestors, n) #
     concat (map (\<lambda>i. traverse (i # r) (n # ancestors) (children n ! i)) [0..<length (children n)])"
  by pat_completeness auto
termination
proof (relation "measure (\<lambda>(r, ancestors, n). size n)")
  show "wf (measure (\<lambda>(r, ancestors, n). size n))"
    by simp
next
  fix r :: node_ref and ancestors :: "node list" and n :: node and i :: nat
  assume "i \<in> set [0..<length (children n)]"
  then have mem: "children n ! i \<in> set (children n)"
    by simp
  have opt: "optionToList x = (case x of None \<Rightarrow> [] | Some y \<Rightarrow> [y])" for x :: "node option"
    by (cases x) auto
  have lst: "size c \<le> size_list size cs" if "c \<in> set cs" for cs :: "node list" and c
    using that by (induction cs) auto
  have "size c < size n" if "c \<in> set (children n)" for c
    using that by (cases n) (auto simp: opt dest!: lst split: option.splits)
  with mem show "((i # r, n # ancestors, children n ! i), (r, ancestors, n))
                   \<in> measure (\<lambda>(r, ancestors, n). size n)"
    by simp
qed

declare traverse.simps [simp del]

text \<open>The walk over the children \<open>cs\<close> of the node at \<open>r\<close>, the first of them being child \<open>i\<close>.\<close>

fun traverseChildren :: "node_ref \<Rightarrow> node list \<Rightarrow> nat \<Rightarrow> node list \<Rightarrow> visited list" where
  "traverseChildren r ancestors i [] = []"
| "traverseChildren r ancestors i (c # cs) =
     traverse (i # r) ancestors c @ traverseChildren r ancestors (Suc i) cs"

text \<open>
  What the rule reads from the host about a file: the statements of the program, the
  scope manager's \<^verbatim>\<open>getDeclaredVariables\<close> (by the position of the declaration node),
  the text and the start and end offsets of each node.
\<close>

record Reference =
  identifierNode :: node_ref
  isRead :: bool

record Variable =
  name :: string
  references :: "Reference list"

record SourceCode =
  body :: "node list"
  getDeclaredVariables :: "node_ref \<Rightarrow> Variable list"
  getText :: string
  nodeRange :: "node_ref \<Rightarrow> nat \<times> nat"

subsection \<open>File classifier\<close>

text \<open>
  Modelled from the spec: the glob library \<^verbatim>\<open>picomatch\<close> is a dependency, not code of
  the repository ("match path against a set of glob patterns"). Matching a path
  against one glob is the parameter \<open>globMatch\<close>; the matcher built from a list of
  globs accepts a path when one of the globs does.
\<close>

definition picomatch :: "(string \<Rightarrow> string \<Rightarrow> bool) \<Rightarrow> string list \<Rightarrow> string \<Rightarrow> bool" where
  "picomatch globMatch patterns path = list_ex (\<lambda>glob. globMatch glob path) patterns"

text \<open>\<^verbatim>\<open>rawFilename.replaceAll('\\', '/')\<close> (line 538); \<open>CHR 0x5C\<close> is the backslash.\<close>

definition normalizeFilename :: "string \<Rightarrow> string" where
  "normalizeFilename rawFilename = map (\<lambda>c. if c = CHR 0x5C then CHR ''/'' else c) rawFilename"

definition shouldIgnoreFile :: "(string \<Rightarrow> string \<Rightarrow> bool) \<Rightarrow> Config \<Rightarrow> string \<Rightarrow> bool" where
  "shouldIgnoreFile globMatch cfg filename =
     (if length (ignoreFiles cfg) > 0
      then (if picomatch globMatch (ignoreFiles cfg) filename then True else False)
      else False)"

definition isServerFile :: "(string \<Rightarrow> string \<Rightarrow> bool) \<Rightarrow> Config \<Rightarrow> string \<Rightarrow> bool" where
  "isServerFile globMatch cfg filename = picomatch globMatch (serverFilePatterns cfg) filename"

definition isClientFile :: "(string \<Rightarrow> string \<Rightarrow> bool) \<Rightarrow> Config \<Rightarrow> string \<Rightarrow> bool" where
  "isClientFile globMatch cfg filename = picomatch globMatch (clientFilePatterns cfg) filename"

subsection \<open>Import and export declarations\<close>

text \<open>\<^verbatim>\<open>hasValueImportSpecifiers\<close> (lines 201-227).\<close>

definition isValueImportSpecifier :: "node \<Rightarrow> bool" where
  "isValueImportSpecifier specifier =
     (case specifier of
        ImportDefaultSpecifier nm \<Rightarrow> True
      | ImportNamespaceSpecifier nm \<Rightarrow> True
      | ImportSpecifier k nm \<Rightarrow> k \<noteq> TypeKind
      | _ \<Rightarrow> True)"

definition hasValueImportSpecifiers :: "decl_kind \<Rightarrow> node list \<Rightarrow> bool" where
  "hasValueImportSpecifiers importKind specifiers =
     (if importKind = TypeKind then False
      else if length specifiers = 0 then True
      else list_ex isValueImportSpecifier specifiers)"

text \<open>\<^verbatim>\<open>hasValueExportSpecifiers\<close> (lines 233-248).\<close>

definition isValueExportSpecifier :: "node \<Rightarrow> bool" where
  "isValueExportSpecifier specifier =
     (case specifier of ExportSpecifier k \<Rightarrow> k \<noteq> TypeKind | _ \<Rightarrow> True)"

definition hasValueExportSpecifiers :: "decl_kind \<Rightarrow> node list \<Rightarrow> bool" where
  "hasValueExportSpecifiers exportKind specifiers =
     (if exportKind = TypeKind then False
      else if length specifiers = 0 then True
      else list_ex isValueExportSpecifier specifiers)"

text \<open>\<^verbatim>\<open>getValueImportNames\<close> (lines 253-275).\<close>

fun valueImportName :: "node \<Rightarrow> string list" where
  "valueImportName (ImportDefaultSpecifier nm) = [nm]"
| "valueImportName (ImportNamespaceSpecifier nm) = [nm]"
| "valueImportName (ImportSpecifier k nm) = (if k \<noteq> TypeKind then [nm] else [])"
| "valueImportName _ = []"

definition getValueImportNames :: "decl_kind \<Rightarrow> node list \<Rightarrow> string list" where
  "getValueImportNames importKind specifiers =
     (if importKind = TypeKind then [] else concat (map valueImportName specifiers))"

subsection \<open>The state of one analysis\<close>

datatype MessageIds = serverOnlyImport | serverOnlyRequire | suggestServerOnlyMarker

text \<open>
  \<^verbatim>\<open>ServerImport\<close> and \<^verbatim>\<open>ServerRequire\<close> have the same fields: the module, the
  import declaration or the \<^verbatim>\<open>require\<close> call, and the tracked variables.
\<close>

record ServerImport =
  moduleName :: string
  node :: node_object
  variables :: "Variable list"

type_synonym ServerRequire = ServerImport

text \<open>
  The mutable variables that \<^verbatim>\<open>create\<close> allocates for one file (lines 542-553 and
  693-711). The set of scopes keeps insertion order and no duplicates.
\<close>

record State =
  hasServerOnlyImport :: bool
  serverOnlyImports :: "ServerImport list"
  serverFunctionScopes :: "node_ref list"
  serverOnlyRequires :: "ServerRequire list"
  bareRequireViolations :: "(node_ref \<times> string) list"
  sideEffectImportViolations :: "(node_ref \<times> string) list"
  reexportViolations :: "(node_ref \<times> string) list"

definition initialState :: State where
  "initialState = \<lparr> hasServerOnlyImport = False, serverOnlyImports = [],
     serverFunctionScopes = [], serverOnlyRequires = [], bareRequireViolations = [],
     sideEffectImportViolations = [], reexportViolations = [] \<rparr>"

text \<open>\<^verbatim>\<open>Set.prototype.add\<close>.\<close>

definition addScope :: "node_ref \<Rightarrow> node_ref list \<Rightarrow> node_ref list" where
  "addScope scope scopes = (if scope \<in> set scopes then scopes else scopes @ [scope])"

subsection \<open>Scopes\<close>

text \<open>
  \<^verbatim>\<open>isNodeInsideScope\<close> (lines 280-289): the loop follows \<^verbatim>\<open>parent\<close> from the node
  to the root.
\<close>

fun isNodeInsideScope :: "node_ref \<Rightarrow> node_ref \<Rightarrow> bool" where
  "isNodeInsideScope [] scopeNode = (if [] = scopeNode then True else False)"
| "isNodeInsideScope (i # parent) scopeNode =
     (if i # parent = scopeNode then True else isNodeInsideScope parent scopeNode)"

text \<open>\<^verbatim>\<open>isInsideServerScope\<close> (lines 713-720).\<close>

definition isInsideServerScope :: "node_ref list \<Rightarrow> node_ref \<Rightarrow> bool" where
  "isInsideServerScope scopes n = list_ex (\<lambda>scope. isNodeInsideScope n scope) scopes"

subsection \<open>Call expressions\<close>

text \<open>\<^verbatim>\<open>findServerFunctionCall\<close> (lines 602-618), applied to a call expression.\<close>

fun findServerFunctionCall :: "Config \<Rightarrow> node \<Rightarrow> node option" where
  "findServerFunctionCall cfg (CallExpression callee arguments) =
     (case callee of
        Identifier nm \<Rightarrow>
          if nm \<in> set (serverFunctionNames cfg) then Some (CallExpression callee arguments)
          else None
      | MemberExpression object property \<Rightarrow>
          (case object of
             CallExpression c a \<Rightarrow> findServerFunctionCall cfg object
           | _ \<Rightarrow> None)
      | _ \<Rightarrow> None)"
| "findServerFunctionCall cfg _ = None"

declare findServerFunctionCall.simps [simp del]

definition isFunctionArgument :: "node \<Rightarrow> bool" where
  "isFunctionArgument arg =
     (case arg of ArrowFunctionExpression cs \<Rightarrow> True | FunctionExpression cs \<Rightarrow> True | _ \<Rightarrow> False)"

text \<open>The function-valued arguments of the call at \<open>call\<close>, as node objects.\<close>

definition functionArguments :: "node_ref \<Rightarrow> node list \<Rightarrow> node_ref list" where
  "functionArguments call arguments =
     map (argumentRef call) (filter (\<lambda>j. isFunctionArgument (arguments ! j)) [0..<length arguments])"

text \<open>
  \<^verbatim>\<open>extractCallbacksFromChain\<close> (lines 623-651): \<open>current\<close> is at \<open>r\<close> with the
  ancestors \<open>ancestors\<close>; the loop moves to \<^verbatim>\<open>current.parent.parent\<close>.
\<close>

fun extractCallbacksFromChain :: "node_ref \<Rightarrow> node list \<Rightarrow> node \<Rightarrow> node_ref list" where
  "extractCallbacksFromChain r ancestors current =
     (case current of
        CallExpression callee arguments \<Rightarrow>
          functionArguments r arguments @
          (case ancestors of
             MemberExpression object property # grandparent # rest \<Rightarrow>
               (case grandparent of
                  CallExpression c a \<Rightarrow> extractCallbacksFromChain (tl (tl r)) rest grandparent
                | _ \<Rightarrow> [])
           | _ \<Rightarrow> [])
      | _ \<Rightarrow> [])"

declare extractCallbacksFromChain.simps [simp del]

text \<open>\<^verbatim>\<open>getRequireSource\<close> (lines 656-668).\<close>

definition getRequireSource :: "node \<Rightarrow> node list \<Rightarrow> string option" where
  "getRequireSource callee arguments =
     (case callee of
        Identifier nm \<Rightarrow>
          if nm = ''require'' \<and> length arguments > 0 then
            (case hd arguments of Literal (StringValue v) \<Rightarrow> Some v | _ \<Rightarrow> None)
          else None
      | _ \<Rightarrow> None)"

subsection \<open>Suggestions\<close>

text \<open>
  A fix is the edit that the host's fixer returns:
  \<^verbatim>\<open>insertTextBeforeRange(range, text)\<close> inserts \<open>text\<close> at \<open>range[0]\<close>, and
  \<^verbatim>\<open>insertTextBefore(node, text)\<close> is \<^verbatim>\<open>insertTextBeforeRange(node.range, text)\<close>.
\<close>

record Fix =
  fixRange :: "nat \<times> nat"
  fixText :: string

definition insertTextBeforeRange :: "nat \<times> nat \<Rightarrow> string \<Rightarrow> Fix" where
  "insertTextBeforeRange rng text = \<lparr> fixRange = (fst rng, fst rng), fixText = text \<rparr>"

definition insertTextBefore :: "SourceCode \<Rightarrow> node_ref \<Rightarrow> string \<Rightarrow> Fix" where
  "insertTextBefore sourceCode n text = insertTextBeforeRange (nodeRange sourceCode n) text"

record Suggestion =
  suggestionMessageId :: MessageIds
  suggestionFix :: Fix

record Diagnostic =
  reportNode :: node_ref
  messageId :: MessageIds
  dataModule :: string
  suggest :: "Suggestion list"

text \<open>\<^verbatim>\<open>isDirectivePrologue\<close> (lines 294-300).\<close>

definition isDirectivePrologue :: "node \<Rightarrow> bool" where
  "isDirectivePrologue n =
     (case n of
        ExpressionStatement expression \<Rightarrow>
          (case expression of Literal (StringValue v) \<Rightarrow> True | _ \<Rightarrow> False)
      | _ \<Rightarrow> False)"

text \<open>\<^verbatim>\<open>hasUseClientDirective\<close> (lines 305-315): the loop, then the function.\<close>

fun useClientAmong :: "node list \<Rightarrow> bool" where
  "useClientAmong [] = False"
| "useClientAmong (n # ns) =
     (if \<not> isDirectivePrologue n then False
      else (case n of
              ExpressionStatement (Literal (StringValue v)) \<Rightarrow>
                if v = ''use client'' then True else useClientAmong ns
            | _ \<Rightarrow> useClientAmong ns))"

definition hasUseClientDirective :: "SourceCode \<Rightarrow> bool" where
  "hasUseClientDirective sourceCode =
     (if length (body sourceCode) = 0 then False else useClientAmong (body sourceCode))"

text \<open>
  \<^verbatim>\<open>findServerOnlyMarkerInsertNode\<close> (lines 324-350). The loop counts the leading
  directive prologues; the statement \<^verbatim>\<open>ast.body[insertIndex]\<close> is the child
  \<open>insertIndex\<close> of the root.
\<close>

definition findServerOnlyMarkerInsertNode :: "SourceCode \<Rightarrow> node_ref option" where
  "findServerOnlyMarkerInsertNode sourceCode =
     (if length (body sourceCode) = 0 then None
      else let insertIndex = length (takeWhile isDirectivePrologue (body sourceCode))
           in if insertIndex \<ge> length (body sourceCode) then None
              else Some [insertIndex])"

text \<open>
  The test \<^verbatim>\<open>/^import\s+['"]server-only['"]/m\<close> of the text (line 367), over the
  characters U+0000 to U+00FF that \<open>char\<close> holds: a line starts at offset 0 and
  after a line feed or a carriage return, and \<^verbatim>\<open>\s\<close> is a tab, a line feed, a
  vertical tab, a form feed, a carriage return, a space or a no-break space (U+00A0).
  The line separators U+2028 and U+2029 and the other spaces of \<^verbatim>\<open>\s\<close> lie beyond
  U+00FF. \<open>CHR 0x27\<close> and \<open>CHR 0x22\<close> are the two quotes.
\<close>

definition isLineTerminator :: "char \<Rightarrow> bool" where
  "isLineTerminator c = (c = CHR 0x0A \<or> c = CHR 0x0D)"

definition isWhiteSpace :: "char \<Rightarrow> bool" where
  "isWhiteSpace c = (c = CHR 0x09 \<or> c = CHR 0x0A \<or> c = CHR 0x0B \<or> c = CHR 0x0C
                     \<or> c = CHR 0x0D \<or> c = CHR 0x20 \<or> c = CHR 0xA0)"

definition isQuote :: "char \<Rightarrow> bool" where
  "isQuote c = (c = CHR 0x27 \<or> c = CHR 0x22)"

definition markerImportAt :: "string \<Rightarrow> bool" where
  "markerImportAt s =
     (startsWith s ''import'' \<and>
      (let afterImport = drop 6 s;
           afterSpace = dropWhile isWhiteSpace afterImport
       in takeWhile isWhiteSpace afterImport \<noteq> [] \<and>
          (case afterSpace of
             [] \<Rightarrow> False
           | q # afterQuote \<Rightarrow>
               isQuote q \<and> startsWith afterQuote ''server-only'' \<and>
               (case drop 11 afterQuote of [] \<Rightarrow> False | q' # _ \<Rightarrow> isQuote q'))))"

fun markerImportFrom :: "bool \<Rightarrow> string \<Rightarrow> bool" where
  "markerImportFrom lineStart [] = False"
| "markerImportFrom lineStart (c # cs) =
     ((lineStart \<and> markerImportAt (c # cs)) \<or> markerImportFrom (isLineTerminator c) cs)"

definition markerImportText :: string where
  "markerImportText = ''import '' @ [CHR 0x27] @ ''server-only'' @ [CHR 0x27] @ '';'' @ [CHR 0x0A]"

text \<open>\<^verbatim>\<open>createServerOnlyMarkerSuggestion\<close> (lines 357-388).\<close>

definition createServerOnlyMarkerSuggestion :: "SourceCode \<Rightarrow> Suggestion list" where
  "createServerOnlyMarkerSuggestion sourceCode =
     (if hasUseClientDirective sourceCode then []
      else let hasMarker = markerImportFrom True (getText sourceCode)
           in [\<lparr> suggestionMessageId = suggestServerOnlyMarker,
                 suggestionFix =
                   (if hasMarker then insertTextBeforeRange (0, 0) []
                    else (case findServerOnlyMarkerInsertNode sourceCode of
                            Some insertNode \<Rightarrow> insertTextBefore sourceCode insertNode markerImportText
                          | None \<Rightarrow> insertTextBeforeRange (0, 0) markerImportText)) \<rparr>])"

definition createImportSuggestions :: "SourceCode \<Rightarrow> Suggestion list" where
  "createImportSuggestions sourceCode = createServerOnlyMarkerSuggestion sourceCode"

definition createSideEffectImportSuggestions :: "string \<Rightarrow> SourceCode \<Rightarrow> Suggestion list" where
  "createSideEffectImportSuggestions m sourceCode = createServerOnlyMarkerSuggestion sourceCode"

definition createRequireSuggestions :: "SourceCode \<Rightarrow> Suggestion list" where
  "createRequireSuggestions sourceCode = createServerOnlyMarkerSuggestion sourceCode"

definition createReexportSuggestions :: "SourceCode \<Rightarrow> Suggestion list" where
  "createReexportSuggestions sourceCode = createServerOnlyMarkerSuggestion sourceCode"

subsection \<open>The visitor callbacks\<close>

text \<open>
  \<^verbatim>\<open>ImportDeclaration\<close> (lines 724-763), for the declaration at \<open>r\<close>. A source
  that is not a string literal fails the \<^verbatim>\<open>typeof\<close> test.
\<close>

definition onImportDeclaration ::
  "Config \<Rightarrow> SourceCode \<Rightarrow> node_ref \<Rightarrow> decl_kind \<Rightarrow> node list \<Rightarrow> node \<Rightarrow> State \<Rightarrow> State" where
  "onImportDeclaration cfg sourceCode r importKind specifiers source st =
     (case source of
        Literal (StringValue src) \<Rightarrow>
          if checkServerOnlyMarker cfg \<and> src = ''server-only''
          then st\<lparr>hasServerOnlyImport := True\<rparr>
          else if \<not> isServerOnlyModule cfg src then st
          else if \<not> hasValueImportSpecifiers importKind specifiers then st
          else if length specifiers = 0
          then st\<lparr>sideEffectImportViolations := sideEffectImportViolations st @ [(r, src)]\<rparr>
          else
            let valueNames = set (getValueImportNames importKind specifiers);
                vars = filter (\<lambda>variable. name variable \<in> valueNames)
                         (getDeclaredVariables sourceCode r)
            in if length vars > 0
               then st\<lparr>serverOnlyImports := serverOnlyImports st @
                          [\<lparr> moduleName = src,
                             node = (r, ImportDeclaration importKind specifiers source),
                             variables = vars \<rparr>]\<rparr>
               else st
      | _ \<Rightarrow> st)"

text \<open>
  The part of \<^verbatim>\<open>CallExpression\<close> for a \<^verbatim>\<open>require\<close> of a non-empty string
  (lines 768-801). The parent and its parent are the first two ancestors; the
  declaration \<^verbatim>\<open>varDecl\<close> is at the tail of the tail of \<open>r\<close>.
\<close>

definition onRequire ::
  "Config \<Rightarrow> SourceCode \<Rightarrow> node_ref \<Rightarrow> node list \<Rightarrow> node \<Rightarrow> string \<Rightarrow> State \<Rightarrow> State" where
  "onRequire cfg sourceCode r ancestors call requireSource st =
     (if checkServerOnlyMarker cfg \<and> requireSource = ''server-only''
      then st\<lparr>hasServerOnlyImport := True\<rparr>
      else if isServerOnlyModule cfg requireSource then
        (let bare = st\<lparr>bareRequireViolations := bareRequireViolations st @
                         [(argumentRef r 0, requireSource)]\<rparr>
         in case ancestors of
              VariableDeclarator ident init # VariableDeclaration declarations # rest \<Rightarrow>
                let vars = getDeclaredVariables sourceCode (tl (tl r))
                in if length vars > 0
                   then st\<lparr>serverOnlyRequires := serverOnlyRequires st @
                              [\<lparr> moduleName = requireSource, node = (r, call),
                                 variables = vars \<rparr>]\<rparr>
                   else bare
            | _ \<Rightarrow> bare)
      else st)"

text \<open>The part of \<^verbatim>\<open>CallExpression\<close> for server functions (lines 803-815).\<close>

definition onServerFunctionCall ::
  "Config \<Rightarrow> node_ref \<Rightarrow> node list \<Rightarrow> node \<Rightarrow> State \<Rightarrow> State" where
  "onServerFunctionCall cfg r ancestors call st =
     (if \<not> checkServerFunctions cfg then st
      else (case findServerFunctionCall cfg call of
              Some serverFnCall \<Rightarrow>
                st\<lparr>serverFunctionScopes :=
                     fold addScope (extractCallbacksFromChain r ancestors call)
                       (serverFunctionScopes st)\<rparr>
            | None \<Rightarrow> st))"

text \<open>
  \<^verbatim>\<open>CallExpression\<close> (lines 765-816). \<^verbatim>\<open>if (requireSource)\<close> is false for
  \<^verbatim>\<open>null\<close> and for the empty string.
\<close>

definition onCallExpression ::
  "Config \<Rightarrow> SourceCode \<Rightarrow> node_ref \<Rightarrow> node list \<Rightarrow> node \<Rightarrow> node list \<Rightarrow> State \<Rightarrow> State" where
  "onCallExpression cfg sourceCode r ancestors callee arguments st =
     (case getRequireSource callee arguments of
        Some requireSource \<Rightarrow>
          if requireSource \<noteq> []
          then onRequire cfg sourceCode r ancestors (CallExpression callee arguments) requireSource st
          else onServerFunctionCall cfg r ancestors (CallExpression callee arguments) st
      | None \<Rightarrow> onServerFunctionCall cfg r ancestors (CallExpression callee arguments) st)"

text \<open>\<^verbatim>\<open>ExportAllDeclaration\<close> (lines 819-831).\<close>

definition onExportAllDeclaration ::
  "Config \<Rightarrow> node_ref \<Rightarrow> decl_kind \<Rightarrow> node \<Rightarrow> State \<Rightarrow> State" where
  "onExportAllDeclaration cfg r exportKind source st =
     (if exportKind = TypeKind then st
      else (case source of
              Literal (StringValue src) \<Rightarrow>
                if isServerOnlyModule cfg src
                then st\<lparr>reexportViolations := reexportViolations st @
                           [(exportAllSourceRef r, src)]\<rparr>
                else st
            | _ \<Rightarrow> st))"

text \<open>\<^verbatim>\<open>ExportNamedDeclaration\<close> (lines 833-849).\<close>

definition onExportNamedDeclaration ::
  "Config \<Rightarrow> node_ref \<Rightarrow> decl_kind \<Rightarrow> node option \<Rightarrow> node list \<Rightarrow> node option \<Rightarrow> State \<Rightarrow> State" where
  "onExportNamedDeclaration cfg r exportKind declaration specifiers source st =
     (case source of
        None \<Rightarrow> st
      | Some sourceNode \<Rightarrow>
          (case sourceNode of
             Literal (StringValue src) \<Rightarrow>
               if \<not> isServerOnlyModule cfg src then st
               else if \<not> hasValueExportSpecifiers exportKind specifiers then st
               else st\<lparr>reexportViolations := reexportViolations st @
                          [(exportNamedSourceRef r declaration specifiers, src)]\<rparr>
           | _ \<Rightarrow> st))"

text \<open>The callback of the rule for one entry of the walk.\<close>

definition visit :: "Config \<Rightarrow> SourceCode \<Rightarrow> visited \<Rightarrow> State \<Rightarrow> State" where
  "visit cfg sourceCode v st =
     (case v of (r, ancestors, n) \<Rightarrow>
        (case n of
           ImportDeclaration importKind specifiers source \<Rightarrow>
             onImportDeclaration cfg sourceCode r importKind specifiers source st
         | CallExpression callee arguments \<Rightarrow>
             onCallExpression cfg sourceCode r ancestors callee arguments st
         | ExportAllDeclaration exportKind source \<Rightarrow>
             onExportAllDeclaration cfg r exportKind source st
         | ExportNamedDeclaration exportKind declaration specifiers source \<Rightarrow>
             onExportNamedDeclaration cfg r exportKind declaration specifiers source st
         | _ \<Rightarrow> st))"

subsection \<open>Reconciliation at the end of the file\<close>

text \<open>
  The loop over the variables of one import or require (lines 898-923 and 937-962):
  the value of \<^verbatim>\<open>hasViolation\<close> after it.
\<close>

fun hasViolation :: "Config \<Rightarrow> node_ref list \<Rightarrow> Variable list \<Rightarrow> bool" where
  "hasViolation cfg scopes [] = False"
| "hasViolation cfg scopes (variable # rest) =
     (let valueReferences = filter isRead (references variable)
      in if length valueReferences = 0
         then (if reportUnusedImports cfg then True else hasViolation cfg scopes rest)
         else if list_ex (\<lambda>reference. \<not> isInsideServerScope scopes (identifierNode reference))
                   valueReferences
              then True
              else hasViolation cfg scopes rest)"

definition report :: "node_ref \<Rightarrow> MessageIds \<Rightarrow> string \<Rightarrow> Suggestion list \<Rightarrow> Diagnostic" where
  "report n mid m suggestions =
     \<lparr> reportNode = n, messageId = mid, dataModule = m, suggest = suggestions \<rparr>"

definition reportSideEffectImports :: "SourceCode \<Rightarrow> State \<Rightarrow> Diagnostic list" where
  "reportSideEffectImports sourceCode st =
     map (\<lambda>(n, m). report n serverOnlyImport m (createSideEffectImportSuggestions m sourceCode))
       (sideEffectImportViolations st)"

definition reportReexports :: "SourceCode \<Rightarrow> State \<Rightarrow> Diagnostic list" where
  "reportReexports sourceCode st =
     map (\<lambda>(n, m). report n serverOnlyImport m (createReexportSuggestions sourceCode))
       (reexportViolations st)"

definition reportBareRequires :: "SourceCode \<Rightarrow> State \<Rightarrow> Diagnostic list" where
  "reportBareRequires sourceCode st =
     map (\<lambda>(n, m). report n serverOnlyRequire m (createRequireSuggestions sourceCode))
       (filter (\<lambda>(n, m). \<not> isInsideServerScope (serverFunctionScopes st) n)
          (bareRequireViolations st))"

text \<open>One round of the loop over the tracked requires (lines 891-933).\<close>

definition reportRequire :: "Config \<Rightarrow> SourceCode \<Rightarrow> node_ref list \<Rightarrow> ServerRequire \<Rightarrow> Diagnostic list" where
  "reportRequire cfg sourceCode scopes req =
     (if isInsideServerScope scopes (fst (node req)) then []
      else if hasViolation cfg scopes (variables req)
      then [report (argumentRef (fst (node req)) 0) serverOnlyRequire (moduleName req)
              (createRequireSuggestions sourceCode)]
      else [])"

text \<open>\<^verbatim>\<open>node.source\<close> of an import declaration object.\<close>

definition sourceOf :: "node_object \<Rightarrow> node_ref" where
  "sourceOf obj =
     (case obj of (r, n) \<Rightarrow>
        (case n of ImportDeclaration k specifiers source \<Rightarrow> importSourceRef r specifiers
         | _ \<Rightarrow> r))"

text \<open>One round of the loop over the tracked imports (lines 936-972).\<close>

definition reportImport :: "Config \<Rightarrow> SourceCode \<Rightarrow> node_ref list \<Rightarrow> ServerImport \<Rightarrow> Diagnostic list" where
  "reportImport cfg sourceCode scopes imp =
     (if hasViolation cfg scopes (variables imp)
      then [report (sourceOf (node imp)) serverOnlyImport (moduleName imp)
              (createImportSuggestions sourceCode)]
      else [])"

text \<open>\<^verbatim>\<open>Program:exit\<close> (lines 852-973): the diagnostics in the order reported.\<close>

definition onProgramExit :: "Config \<Rightarrow> SourceCode \<Rightarrow> State \<Rightarrow> Diagnostic list" where
  "onProgramExit cfg sourceCode st =
     (if hasServerOnlyImport st then []
      else reportSideEffectImports sourceCode st
         @ reportReexports sourceCode st
         @ reportBareRequires sourceCode st
         @ concat (map (reportRequire cfg sourceCode (serverFunctionScopes st)) (serverOnlyRequires st))
         @ concat (map (reportImport cfg sourceCode (serverFunctionScopes st)) (serverOnlyImports st)))"

subsection \<open>One analysis of a file\<close>

text \<open>The walk of the host over the file, calling the callbacks on a fresh state.\<close>

definition nodesOf :: "SourceCode \<Rightarrow> visited list" where
  "nodesOf sourceCode = traverse [] [] (Program (body sourceCode))"

definition collect :: "Config \<Rightarrow> SourceCode \<Rightarrow> State" where
  "collect cfg sourceCode = fold (visit cfg sourceCode) (nodesOf sourceCode) initialState"

text \<open>
  \<^verbatim>\<open>create\<close> (lines 507-975) together with the host's walk: the diagnostics that the
  rule reports for the file. Where \<^verbatim>\<open>create\<close> returns no callbacks (lines 670-684)
  nothing is reported.
\<close>

definition runRule ::
  "(string \<Rightarrow> string \<Rightarrow> bool) \<Rightarrow> RuleOptions \<Rightarrow> string \<Rightarrow> SourceCode \<Rightarrow> Diagnostic list" where
  "runRule globMatch options rawFilename sourceCode =
     (let cfg = mergeOptions options;
          filename = normalizeFilename rawFilename
      in if shouldIgnoreFile globMatch cfg filename then []
         else if isServerFile globMatch cfg filename then []
         else if mode cfg = ClientOnly \<and> \<not> isClientFile globMatch cfg filename then []
         else onProgramExit cfg sourceCode (collect cfg sourceCode))"

subsection \<open>Analyses one after the other\<close>

text \<open>
  Every call of \<^verbatim>\<open>create\<close> declares the variables of \<open>State\<close> anew (lines 542-553
  and 693-711), and the callbacks that the call returns read and write those
  variables only. A heap is the list of the environments that the calls so far have
  allocated, each holding the variables of one call; the address of an environment is
  its index. What an analysis leaves in its environment stays on the heap.
\<close>

type_synonym Heap = "State list"

text \<open>
  \<^verbatim>\<open>create\<close> on a heap: it allocates a new environment with the initial values and
  returns its address for the callbacks, or no callbacks (lines 670-684).
\<close>

definition create ::
  "(string \<Rightarrow> string \<Rightarrow> bool) \<Rightarrow> RuleOptions \<Rightarrow> string \<Rightarrow> Heap \<Rightarrow> nat option \<times> Heap" where
  "create globMatch options rawFilename heap =
     (let cfg = mergeOptions options;
          filename = normalizeFilename rawFilename;
          frame = length heap;
          allocated = heap @ [initialState]
      in if shouldIgnoreFile globMatch cfg filename then (None, allocated)
         else if isServerFile globMatch cfg filename then (None, allocated)
         else if mode cfg = ClientOnly \<and> \<not> isClientFile globMatch cfg filename
         then (None, allocated)
         else (Some frame, allocated))"

text \<open>
  The callbacks of the environment at \<open>frame\<close>, called by the host on a node: they
  update that environment in place.
\<close>

definition callListener :: "Config \<Rightarrow> SourceCode \<Rightarrow> nat \<Rightarrow> visited \<Rightarrow> Heap \<Rightarrow> Heap" where
  "callListener cfg sourceCode frame v heap = heap[frame := visit cfg sourceCode v (heap ! frame)]"

text \<open>
  One analysis by the host on a heap: the call of \<^verbatim>\<open>create\<close>, the walk calling the
  callbacks, and \<^verbatim>\<open>Program:exit\<close> reading the environment. It returns the
  diagnostics and the heap that it leaves.
\<close>

definition analyse ::
  "(string \<Rightarrow> string \<Rightarrow> bool) \<Rightarrow> RuleOptions \<Rightarrow> string \<Rightarrow> SourceCode \<Rightarrow> Heap
     \<Rightarrow> Diagnostic list \<times> Heap" where
  "analyse globMatch options rawFilename sourceCode heap =
     (case create globMatch options rawFilename heap of
        (None, allocated) \<Rightarrow> ([], allocated)
      | (Some frame, allocated) \<Rightarrow>
          let walked = fold (callListener (mergeOptions options) sourceCode frame)
                         (nodesOf sourceCode) allocated
          in (onProgramExit (mergeOptions options) sourceCode (walked ! frame), walked))"

subsection \<open>Notions used in the statements\<close>

text \<open>The node at a path from the root (child indices, root first), when there is one.\<close>

fun nodeAt :: "node \<Rightarrow> nat list \<Rightarrow> node option" where
  "nodeAt n [] = Some n"
| "nodeAt n (i # p) = (if i < length (children n) then nodeAt (children n ! i) p else None)"

text \<open>
  A marker: an import declaration whose source is \<^verbatim>\<open>'server-only'\<close> or a call
  \<^verbatim>\<open>require('server-only')\<close>, when \<^verbatim>\<open>checkServerOnlyMarker\<close> is on.
\<close>

definition isServerOnlyMarker :: "Config \<Rightarrow> node \<Rightarrow> bool" where
  "isServerOnlyMarker cfg n =
     (checkServerOnlyMarker cfg \<and>
      (case n of
         ImportDeclaration importKind specifiers source \<Rightarrow>
           source = Literal (StringValue ''server-only'')
       | CallExpression callee arguments \<Rightarrow>
           getRequireSource callee arguments = Some ''server-only''
       | _ \<Rightarrow> False))"

definition hasMarkerNode :: "Config \<Rightarrow> SourceCode \<Rightarrow> bool" where
  "hasMarkerNode cfg sourceCode =
     list_ex (\<lambda>v. isServerOnlyMarker cfg (snd (snd v))) (nodesOf sourceCode)"

text \<open>The file passes the three tests of \<^verbatim>\<open>create\<close> (lines 670-684).\<close>

definition isAnalyzed :: "(string \<Rightarrow> string \<Rightarrow> bool) \<Rightarrow> Config \<Rightarrow> string \<Rightarrow> bool" where
  "isAnalyzed globMatch cfg rawFilename =
     (let filename = normalizeFilename rawFilename
      in \<not> shouldIgnoreFile globMatch cfg filename
         \<and> \<not> isServerFile globMatch cfg filename
         \<and> (mode cfg = AllNonServer \<or> isClientFile globMatch cfg filename))"

text \<open>The boundary scopes of a file: the scopes registered when the walk is over.\<close>

definition boundaryScopes :: "Config \<Rightarrow> SourceCode \<Rightarrow> node_ref list" where
  "boundaryScopes cfg sourceCode = serverFunctionScopes (collect cfg sourceCode)"

text \<open>
  The diagnostics that stem from one node of the file, given the boundary scopes:
  what \<^verbatim>\<open>Program:exit\<close> reports for the candidates that the node's callback records.
\<close>

definition diagnosticsOf :: "Config \<Rightarrow> SourceCode \<Rightarrow> node_ref list \<Rightarrow> visited \<Rightarrow> Diagnostic list" where
  "diagnosticsOf cfg sourceCode scopes v =
     onProgramExit cfg sourceCode
       ((visit cfg sourceCode v initialState)\<lparr>serverFunctionScopes := scopes, hasServerOnlyImport := False\<rparr>)"

text \<open>
  A static reference to a server-only module: an import declaration, a
  \<^verbatim>\<open>require\<close> call or an export-from declaration whose source is classified
  server-only. A dynamic \<^verbatim>\<open>import()\<close> is an \<open>ImportExpression\<close> and is none of them.
\<close>

definition staticServerReference :: "Config \<Rightarrow> node \<Rightarrow> bool" where
  "staticServerReference cfg n =
     (case n of
        ImportDeclaration importKind specifiers source \<Rightarrow>
          (case source of Literal (StringValue src) \<Rightarrow> isServerOnlyModule cfg src | _ \<Rightarrow> False)
      | CallExpression callee arguments \<Rightarrow>
          (case getRequireSource callee arguments of
             Some src \<Rightarrow> isServerOnlyModule cfg src
           | None \<Rightarrow> False)
      | ExportAllDeclaration exportKind source \<Rightarrow>
          (case source of Literal (StringValue src) \<Rightarrow> isServerOnlyModule cfg src | _ \<Rightarrow> False)
      | ExportNamedDeclaration exportKind declaration specifiers source \<Rightarrow>
          (case source of
             Some (Literal (StringValue src)) \<Rightarrow> isServerOnlyModule cfg src
           | _ \<Rightarrow> False)
      | _ \<Rightarrow> False)"

text \<open>
  The bindings of the import declaration at \<open>r\<close>: the declared variables that the
  callback tracks (lines 751-754).
\<close>

definition importBindings :: "SourceCode \<Rightarrow> node_ref \<Rightarrow> decl_kind \<Rightarrow> node list \<Rightarrow> Variable list" where
  "importBindings sourceCode r importKind specifiers =
     filter (\<lambda>variable. name variable \<in> set (getValueImportNames importKind specifiers))
       (getDeclaredVariables sourceCode r)"

text \<open>A binding with a read outside every scope, and a binding with no read.\<close>

definition hasUnconfinedRead :: "node_ref list \<Rightarrow> Variable \<Rightarrow> bool" where
  "hasUnconfinedRead scopes variable =
     list_ex (\<lambda>reference. isRead reference
                \<and> \<not> isInsideServerScope scopes (identifierNode reference))
       (references variable)"

definition hasNoRead :: "Variable \<Rightarrow> bool" where
  "hasNoRead variable = (\<not> list_ex isRead (references variable))"

definition allReadsConfined :: "node_ref list \<Rightarrow> Variable \<Rightarrow> bool" where
  "allReadsConfined scopes variable =
     (list_ex isRead (references variable) \<and>
      list_all (\<lambda>reference. isRead reference
                  \<longrightarrow> isInsideServerScope scopes (identifierNode reference))
        (references variable))"

text \<open>
  A declaration with a string source that brings in types only: an
  \<^verbatim>\<open>import type\<close> or an import whose specifiers are all inline \<^verbatim>\<open>type\<close>
  specifiers, an \<^verbatim>\<open>export type ... from\<close> or an export-from whose specifiers are all
  \<^verbatim>\<open>type\<close> specifiers, or an \<^verbatim>\<open>export type * from\<close>.
\<close>

definition isTypeOnlyDeclaration :: "node \<Rightarrow> bool" where
  "isTypeOnlyDeclaration n =
     (case n of
        ImportDeclaration importKind specifiers source \<Rightarrow>
          (case source of
             Literal (StringValue src) \<Rightarrow>
               importKind = TypeKind
               \<or> (specifiers \<noteq> [] \<and> \<not> list_ex isValueImportSpecifier specifiers)
           | _ \<Rightarrow> False)
      | ExportNamedDeclaration exportKind declaration specifiers source \<Rightarrow>
          (case source of
             Some (Literal (StringValue src)) \<Rightarrow>
               exportKind = TypeKind
               \<or> (specifiers \<noteq> [] \<and> \<not> list_ex isValueExportSpecifier specifiers)
           | _ \<Rightarrow> False)
      | ExportAllDeclaration exportKind source \<Rightarrow>
          (case source of Literal (StringValue src) \<Rightarrow> exportKind = TypeKind | _ \<Rightarrow> False)
      | _ \<Rightarrow> False)"

text \<open>The position of \<^verbatim>\<open>node.source\<close> for a declaration at \<open>r\<close>.\<close>

definition declarationSourceRef :: "node_ref \<Rightarrow> node \<Rightarrow> node_ref" where
  "declarationSourceRef r n =
     (case n of
        ImportDeclaration importKind specifiers source \<Rightarrow> importSourceRef r specifiers
      | ExportAllDeclaration exportKind source \<Rightarrow> exportAllSourceRef r
      | ExportNamedDeclaration exportKind declaration specifiers source \<Rightarrow>
          exportNamedSourceRef r declaration specifiers
      | _ \<Rightarrow> r)"

text \<open>
  The calls of a chain, from the call at \<open>r\<close> down to the root, following
  \<^verbatim>\<open>callee.object\<close>: the callee is child 0 of a call and the object is child 0 of a
  member expression.
\<close>

fun callChain :: "node_ref \<Rightarrow> node \<Rightarrow> (node_ref \<times> node) list" where
  "callChain r (CallExpression callee arguments) =
     (r, CallExpression callee arguments) #
     (case callee of
        MemberExpression object property \<Rightarrow>
          (case object of
             CallExpression c a \<Rightarrow> callChain (0 # 0 # r) object
           | _ \<Rightarrow> [])
      | _ \<Rightarrow> [])"
| "callChain r _ = []"

declare callChain.simps [simp del]

text \<open>The call takes the \<^verbatim>\<open>require\<close> branch of the callback (line 768).\<close>

definition isRequireCall :: "node \<Rightarrow> bool" where
  "isRequireCall n =
     (case n of
        CallExpression callee arguments \<Rightarrow>
          (case getRequireSource callee arguments of Some src \<Rightarrow> src \<noteq> [] | None \<Rightarrow> False)
      | _ \<Rightarrow> False)"

subsection \<open>Example files\<close>

text \<open>
  A glob matcher that knows three facts: what the examples need of the glob library.
\<close>

definition exampleGlob :: "string \<Rightarrow> string \<Rightarrow> bool" where
  "exampleGlob glob path =
     ((glob, path) \<in> set [(''**/server/**'', ''C:/app/server/db.ts''),
                          (''**/routes/**'', ''/app/src/routes/index.tsx''),
                          (''**/*.gen.ts'', ''/app/src/routes/x.gen.ts'')])"

definition windowsServerPath :: string where
  "windowsServerPath =
     ''C:'' @ [CHR 0x5C] @ ''app'' @ [CHR 0x5C] @ ''server'' @ [CHR 0x5C] @ ''db.ts''"

definition routesPath :: string where
  "routesPath = ''/app/src/routes/index.tsx''"

text \<open>\<^verbatim>\<open>import fs from 'fs';\<close> with no reference to \<^verbatim>\<open>fs\<close>.\<close>

definition unusedImportFile :: SourceCode where
  "unusedImportFile =
     \<lparr> body = [ImportDeclaration ValueKind [ImportDefaultSpecifier ''fs'']
                  (Literal (StringValue ''fs''))],
       getDeclaredVariables =
         (\<lambda>r. if r = [0] then [\<lparr> name = ''fs'', references = [] \<rparr>] else []),
       getText = ''import fs from '' @ [CHR 0x27] @ ''fs'' @ [CHR 0x27] @ '';'',
       nodeRange = (\<lambda>r. (0, 20)) \<rparr>"

text \<open>\<^verbatim>\<open>import 'server-only'; import fs from 'fs';\<close>\<close>

definition markedFile :: SourceCode where
  "markedFile =
     \<lparr> body = [ImportDeclaration ValueKind [] (Literal (StringValue ''server-only'')),
               ImportDeclaration ValueKind [ImportDefaultSpecifier ''fs'']
                  (Literal (StringValue ''fs''))],
       getDeclaredVariables =
         (\<lambda>r. if r = [1] then [\<lparr> name = ''fs'', references = [] \<rparr>] else []),
       getText = ''import '' @ [CHR 0x27] @ ''server-only'' @ [CHR 0x27] @ ''; ''
                 @ ''import fs from '' @ [CHR 0x27] @ ''fs'' @ [CHR 0x27] @ '';'',
       nodeRange = (\<lambda>r. if r = [0] then (0, 21) else (22, 42)) \<rparr>"

text \<open>\<^verbatim>\<open>async function log() { const pino = await import('pino'); }\<close>\<close>

definition dynamicImportFile :: SourceCode where
  "dynamicImportFile =
     \<lparr> body = [OtherNode [Identifier ''log'',
                 OtherNode [VariableDeclaration [VariableDeclarator (Identifier ''pino'')
                   (Some (OtherNode [ImportExpression (Literal (StringValue ''pino''))]))]]]],
       getDeclaredVariables = (\<lambda>r. []),
       getText = ''async function log() { const pino = await import('' @ [CHR 0x27] @ ''pino''
                 @ [CHR 0x27] @ ''); }'',
       nodeRange = (\<lambda>r. (0, 59)) \<rparr>"

text \<open>
  \<^verbatim>\<open>import pino from 'pino';\<close>
  \<^verbatim>\<open>const fn = createServerFn().handler(() => { pino.info('x'); });\<close>
  The read of \<^verbatim>\<open>pino\<close> is at \<open>[0, 0, 0, 0, 0, 1, 1, 0, 1]\<close>, inside the arrow
  function at \<open>[1, 1, 0, 1]\<close>.
\<close>

definition serverFnStatement :: node where
  "serverFnStatement =
     VariableDeclaration [VariableDeclarator (Identifier ''fn'')
       (Some (CallExpression
          (MemberExpression (CallExpression (Identifier ''createServerFn'') [])
             (Identifier ''handler''))
          [ArrowFunctionExpression [OtherNode [ExpressionStatement
             (CallExpression (MemberExpression (Identifier ''pino'') (Identifier ''info''))
                [Literal (StringValue ''x'')])]]]))]"

definition pinoImport :: node where
  "pinoImport =
     ImportDeclaration ValueKind [ImportDefaultSpecifier ''pino''] (Literal (StringValue ''pino''))"

definition confinedFile :: SourceCode where
  "confinedFile =
     \<lparr> body = [pinoImport, serverFnStatement],
       getDeclaredVariables =
         (\<lambda>r. if r = [0]
              then [\<lparr> name = ''pino'',
                      references = [\<lparr> identifierNode = [0, 0, 0, 0, 0, 1, 1, 0, 1],
                                      isRead = True \<rparr>] \<rparr>]
              else if r = [1] then [\<lparr> name = ''fn'', references = [] \<rparr>]
              else []),
       getText = ''import pino from ...'',
       nodeRange = (\<lambda>r. if r = [0] then (0, 24) else (25, 90)) \<rparr>"

text \<open>The same file followed by \<^verbatim>\<open>pino.info('y');\<close> with its read at \<open>[0, 0, 0, 2]\<close>.\<close>

definition unconfinedFile :: SourceCode where
  "unconfinedFile =
     \<lparr> body = [pinoImport, serverFnStatement,
               ExpressionStatement
                 (CallExpression (MemberExpression (Identifier ''pino'') (Identifier ''info''))
                    [Literal (StringValue ''y'')])],
       getDeclaredVariables =
         (\<lambda>r. if r = [0]
              then [\<lparr> name = ''pino'',
                      references = [\<lparr> identifierNode = [0, 0, 0, 0, 0, 1, 1, 0, 1],
                                      isRead = True \<rparr>,
                                    \<lparr> identifierNode = [0, 0, 0, 2], isRead = True \<rparr>] \<rparr>]
              else if r = [1] then [\<lparr> name = ''fn'', references = [] \<rparr>]
              else []),
       getText = ''import pino from ...'',
       nodeRange = (\<lambda>r. if r = [0] then (0, 24) else if r = [1] then (25, 90) else (91, 106)) \<rparr>"

text \<open>
  \<^verbatim>\<open>const fn = createServerFn().handler(() => { const pino = require('pino'); });\<close>
  \<^verbatim>\<open>pino.info('y');\<close>
  with the second statement's \<^verbatim>\<open>pino\<close> resolved to the variable declared inside the
  callback: a read outside every boundary scope.
\<close>

definition requireCall :: node where
  "requireCall = CallExpression (Identifier ''require'') [Literal (StringValue ''pino'')]"

definition requireInsideFile :: SourceCode where
  "requireInsideFile =
     \<lparr> body = [VariableDeclaration [VariableDeclarator (Identifier ''fn'')
                 (Some (CallExpression
                    (MemberExpression (CallExpression (Identifier ''createServerFn'') [])
                       (Identifier ''handler''))
                    [ArrowFunctionExpression [OtherNode [VariableDeclaration
                       [VariableDeclarator (Identifier ''pino'') (Some requireCall)]]]]))],
               ExpressionStatement
                 (CallExpression (MemberExpression (Identifier ''pino'') (Identifier ''info''))
                    [Literal (StringValue ''y'')])],
       getDeclaredVariables =
         (\<lambda>r. if r = [0, 0, 1, 1, 0, 0]
              then [\<lparr> name = ''pino'',
                      references = [\<lparr> identifierNode = [0, 0, 0, 1], isRead = True \<rparr>] \<rparr>]
              else if r = [0] then [\<lparr> name = ''fn'', references = [] \<rparr>]
              else []),
       getText = ''const fn = ...'',
       nodeRange = (\<lambda>r. if r = [0] then (0, 76) else (77, 92)) \<rparr>"

text \<open>
  \<^verbatim>\<open>import type { Logger } from 'pino';\<close>
  \<^verbatim>\<open>import { type A, type B } from 'fs';\<close>
  \<^verbatim>\<open>export { type C } from 'pg';\<close>
  \<^verbatim>\<open>export type * from 'os';\<close>
\<close>

definition typeOnlyFile :: SourceCode where
  "typeOnlyFile =
     \<lparr> body = [ImportDeclaration TypeKind [ImportSpecifier ValueKind ''Logger'']
                 (Literal (StringValue ''pino'')),
               ImportDeclaration ValueKind
                 [ImportSpecifier TypeKind ''A'', ImportSpecifier TypeKind ''B'']
                 (Literal (StringValue ''fs'')),
               ExportNamedDeclaration ValueKind None [ExportSpecifier TypeKind]
                 (Some (Literal (StringValue ''pg''))),
               ExportAllDeclaration TypeKind (Literal (StringValue ''os''))],
       getDeclaredVariables =
         (\<lambda>r. if r = [0] then [\<lparr> name = ''Logger'', references = [] \<rparr>]
              else if r = [1] then [\<lparr> name = ''A'', references = [] \<rparr>,
                                    \<lparr> name = ''B'', references = [] \<rparr>]
              else []),
       getText = ''import type ...'',
       nodeRange = (\<lambda>r. (0, 0)) \<rparr>"

text \<open>
  \<^verbatim>\<open>createServerFn().validator(function () {}).handler(() => {});\<close>
  The outer call is at \<open>[0, 0]\<close>, the call of \<^verbatim>\<open>validator\<close> at \<open>[0, 0, 0, 0]\<close> and the
  root call at \<open>[0, 0, 0, 0, 0, 0]\<close>.
\<close>

definition validatorCall :: node where
  "validatorCall =
     CallExpression
       (MemberExpression (CallExpression (Identifier ''createServerFn'') [])
          (Identifier ''validator''))
       [FunctionExpression []]"

definition handlerCall :: node where
  "handlerCall =
     CallExpression (MemberExpression validatorCall (Identifier ''handler''))
       [ArrowFunctionExpression []]"

definition chainFile :: SourceCode where
  "chainFile =
     \<lparr> body = [ExpressionStatement handlerCall],
       getDeclaredVariables = (\<lambda>r. []),
       getText = ''createServerFn().validator(function () {}).handler(() => {});'',
       nodeRange = (\<lambda>r. (0, 61)) \<rparr>"

text \<open>A file that is the single directive \<^verbatim>\<open>'use strict';\<close> (13 characters).\<close>

definition onlyDirectivesFile :: SourceCode where
  "onlyDirectivesFile =
     \<lparr> body = [ExpressionStatement (Literal (StringValue ''use strict''))],
       getDeclaredVariables = (\<lambda>r. []),
       getText = [CHR 0x27] @ ''use strict'' @ [CHR 0x27] @ '';'',
       nodeRange = (\<lambda>r. (0, 13)) \<rparr>"

text \<open>
  \<^verbatim>\<open>'use strict';\<close> and, on the next line, \<^verbatim>\<open>import 'fs';\<close>: the import starts at
  offset 14.
\<close>

definition strictImportFile :: SourceCode where
  "strictImportFile =
     \<lparr> body = [ExpressionStatement (Literal (StringValue ''use strict'')),
               ImportDeclaration ValueKind [] (Literal (StringValue ''fs''))],
       getDeclaredVariables = (\<lambda>r. []),
       getText = [CHR 0x27] @ ''use strict'' @ [CHR 0x27] @ '';'' @ [CHR 0x0A]
                 @ ''import '' @ [CHR 0x27] @ ''fs'' @ [CHR 0x27] @ '';'',
       nodeRange = (\<lambda>r. if r = [0] then (0, 13) else (14, 26)) \<rparr>"

section \<open>Theorems\<close>

subsection \<open>Evaluating the walk\<close>

lemma traverseChildren_eq:
  "concat (map (\<lambda>i. traverse (i # r) anc (cs ! (i - k))) [k..<k + length cs]) =
     traverseChildren r anc k cs"
proof (induction cs arbitrary: k)
  case Nil
  show ?case by simp
next
  case (Cons c cs)
  let ?F = "\<lambda>i. traverse (i # r) anc ((c # cs) ! (i - k))"
  let ?G = "\<lambda>i. traverse (i # r) anc (cs ! (i - Suc k))"
  let ?is = "[Suc k..<Suc k + length cs]"
  have upt: "[k..<k + length (c # cs)] = k # ?is"
    by (simp add: upt_conv_Cons del: upt_Suc)
  have "map ?F ?is = map ?G ?is"
    by (rule map_cong) (auto simp: nth_Cons' simp del: upt_Suc)
  then have tl: "concat (map ?F ?is) = concat (map ?G ?is)"
    by (rule arg_cong)
  have "concat (map ?F [k..<k + length (c # cs)]) = ?F k @ concat (map ?F ?is)"
    unfolding upt by (simp only: list.map concat.simps)
  also have "?F k = traverse (k # r) anc c"
    by simp
  also note tl
  also have "concat (map ?G ?is) = traverseChildren r anc (Suc k) cs"
    by (rule Cons.IH)
  finally show ?case
    by (simp only: traverseChildren.simps)
qed

lemma traverse_code [code]:
  "traverse r anc n = (r, anc, n) # traverseChildren r (n # anc) 0 (children n)"
proof -
  have "traverse r anc n =
          (r, anc, n) #
          concat (map (\<lambda>i. traverse (i # r) (n # anc) (children n ! i)) [0..<length (children n)])"
    by (rule traverse.simps)
  with traverseChildren_eq [of r "n # anc" "children n" 0] show ?thesis
    by simp
qed

subsection \<open>Module classifier\<close>

lemma startsWith_iff: "startsWith s p \<longleftrightarrow> (\<exists>t. s = p @ t)"
proof
  assume "startsWith s p"
  then have "s = p @ drop (length p) s"
    unfolding startsWith_def by (metis append_take_drop_id)
  then show "\<exists>t. s = p @ t" ..
next
  assume "\<exists>t. s = p @ t"
  then show "startsWith s p"
    unfolding startsWith_def by auto
qed

lemma isServerOnlyModule_iff:
  "isServerOnlyModule cfg x \<longleftrightarrow>
     x \<in> set (serverModules cfg) \<or> (\<exists>m \<in> set (serverModules cfg). \<exists>s. x = m @ ''/'' @ s)"
  unfolding isServerOnlyModule_def list_ex_iff startsWith_iff by auto

text \<open>
  Claim C4. For every configured server-module name \<open>m\<close> (a default or one added by
  \<^verbatim>\<open>serverModules\<close> or \<^verbatim>\<open>serverExternalPackages\<close>) and every suffix \<open>s\<close>, both
  \<open>m\<close> and \<open>m/s\<close> are classified server-only; a specifier that is neither a member of
  the list nor a member followed by a slash and a suffix is not.
\<close>

theorem isServerOnlyModule_subpath_rule:
  "(\<forall>m \<in> set (serverModules (mergeOptions options)). \<forall>s.
       isServerOnlyModule (mergeOptions options) m
     \<and> isServerOnlyModule (mergeOptions options) (m @ ''/'' @ s))
   \<and> (\<forall>x. x \<notin> set (serverModules (mergeOptions options))
          \<and> (\<forall>m \<in> set (serverModules (mergeOptions options)). \<forall>s. x \<noteq> m @ ''/'' @ s)
        \<longrightarrow> \<not> isServerOnlyModule (mergeOptions options) x)"
  unfolding isServerOnlyModule_iff by blast

theorem isServerOnlyModule_subpath_rule_witness:
  "isServerOnlyModule (mergeOptions noOptions) ''fs''
   \<and> isServerOnlyModule (mergeOptions noOptions) (''fs'' @ ''/'' @ ''promises/x'')
   \<and> \<not> isServerOnlyModule (mergeOptions noOptions) ''react''"
proof -
  have mem: "''fs'' \<in> set (serverModules (mergeOptions noOptions))"
    by (simp add: mergeOptions_def noOptions_def orDefault_def DEFAULT_SERVER_MODULES_def)
  have out: "''react'' \<notin> set (serverModules (mergeOptions noOptions))"
    by (simp add: mergeOptions_def noOptions_def orDefault_def DEFAULT_SERVER_MODULES_def)
  have sub: "\<forall>m \<in> set (serverModules (mergeOptions noOptions)). \<forall>s. ''react'' \<noteq> m @ ''/'' @ s"
    by (simp add: mergeOptions_def noOptions_def orDefault_def DEFAULT_SERVER_MODULES_def)
  from isServerOnlyModule_subpath_rule [of noOptions] mem out sub
  show ?thesis by blast
qed

subsection \<open>File classifier\<close>

lemma picomatch_iff: "picomatch globMatch patterns path \<longleftrightarrow> (\<exists>g \<in> set patterns. globMatch g path)"
  by (simp add: picomatch_def list_ex_iff)

lemma mergeOptions_fields:
  "ignoreFiles (mergeOptions options) = orDefault (opt_ignoreFiles options) []"
  "serverFilePatterns (mergeOptions options) =
     DEFAULT_SERVER_FILE_PATTERNS @ orDefault (opt_serverFilePatterns options) []"
  by (simp_all add: mergeOptions_def)

text \<open>
  Claim C5. A file whose forward-slash-normalized path matches a glob of
  \<^verbatim>\<open>ignoreFiles\<close>, or a glob of the server file patterns (the defaults followed by
  the user's \<^verbatim>\<open>serverFilePatterns\<close>), gets no diagnostic, whatever its content.
\<close>

theorem ignored_or_server_file_no_diagnostics:
  assumes "(\<exists>g \<in> set (orDefault (opt_ignoreFiles options) []).
              globMatch g (normalizeFilename rawFilename))
         \<or> (\<exists>g \<in> set (DEFAULT_SERVER_FILE_PATTERNS @ orDefault (opt_serverFilePatterns options) []).
              globMatch g (normalizeFilename rawFilename))"
  shows "runRule globMatch options rawFilename sourceCode = []"
proof -
  let ?cfg = "mergeOptions options" and ?f = "normalizeFilename rawFilename"
  from assms have "shouldIgnoreFile globMatch ?cfg ?f \<or> isServerFile globMatch ?cfg ?f"
    unfolding shouldIgnoreFile_def isServerFile_def picomatch_iff mergeOptions_fields
    by (cases "orDefault (opt_ignoreFiles options) []") auto
  then show ?thesis
    by (auto simp: runRule_def Let_def)
qed

theorem ignored_or_server_file_no_diagnostics_witness:
  "runRule exampleGlob noOptions windowsServerPath unusedImportFile = []
   \<and> runRule exampleGlob (noOptions\<lparr>opt_ignoreFiles := Some [''**/*.gen.ts'']\<rparr>)
         ''/app/src/routes/x.gen.ts'' unusedImportFile = []"
proof -
  have a: "(\<exists>g \<in> set (orDefault (opt_ignoreFiles noOptions) []).
              exampleGlob g (normalizeFilename windowsServerPath))
         \<or> (\<exists>g \<in> set (DEFAULT_SERVER_FILE_PATTERNS @ orDefault (opt_serverFilePatterns noOptions) []).
              exampleGlob g (normalizeFilename windowsServerPath))"
    by (simp add: noOptions_def orDefault_def DEFAULT_SERVER_FILE_PATTERNS_def
          normalizeFilename_def windowsServerPath_def exampleGlob_def)
  have b: "(\<exists>g \<in> set (orDefault (opt_ignoreFiles (noOptions\<lparr>opt_ignoreFiles := Some [''**/*.gen.ts'']\<rparr>)) []).
              exampleGlob g (normalizeFilename ''/app/src/routes/x.gen.ts''))
         \<or> (\<exists>g \<in> set (DEFAULT_SERVER_FILE_PATTERNS
               @ orDefault (opt_serverFilePatterns (noOptions\<lparr>opt_ignoreFiles := Some [''**/*.gen.ts'']\<rparr>)) []).
              exampleGlob g (normalizeFilename ''/app/src/routes/x.gen.ts''))"
    by (simp add: noOptions_def orDefault_def normalizeFilename_def exampleGlob_def)
  show ?thesis
    using a b
      ignored_or_server_file_no_diagnostics [where globMatch = exampleGlob
        and options = noOptions and rawFilename = windowsServerPath
        and sourceCode = unusedImportFile]
      ignored_or_server_file_no_diagnostics [where globMatch = exampleGlob
        and options = "noOptions\<lparr>opt_ignoreFiles := Some [''**/*.gen.ts'']\<rparr>"
        and rawFilename = "''/app/src/routes/x.gen.ts''" and sourceCode = unusedImportFile]
    by blast
qed

subsection \<open>What a callback changes\<close>

lemma onImportDeclaration_fields:
  "hasServerOnlyImport (onImportDeclaration cfg sc r k specs src st) =
     (hasServerOnlyImport st \<or> isServerOnlyMarker cfg (ImportDeclaration k specs src))"
  "serverFunctionScopes (onImportDeclaration cfg sc r k specs src st) = serverFunctionScopes st"
  "serverOnlyRequires (onImportDeclaration cfg sc r k specs src st) = serverOnlyRequires st"
  "bareRequireViolations (onImportDeclaration cfg sc r k specs src st) = bareRequireViolations st"
  "reexportViolations (onImportDeclaration cfg sc r k specs src st) = reexportViolations st"
  "serverOnlyImports (onImportDeclaration cfg sc r k specs src st) =
     serverOnlyImports st @ serverOnlyImports (onImportDeclaration cfg sc r k specs src initialState)"
  "sideEffectImportViolations (onImportDeclaration cfg sc r k specs src st) =
     sideEffectImportViolations st
       @ sideEffectImportViolations (onImportDeclaration cfg sc r k specs src initialState)"
  by (auto simp: onImportDeclaration_def isServerOnlyMarker_def initialState_def Let_def
           split: node.splits literal_value.splits)

lemma onRequire_fields:
  "hasServerOnlyImport (onRequire cfg sc r anc call m st) =
     (hasServerOnlyImport st \<or> (checkServerOnlyMarker cfg \<and> m = ''server-only''))"
  "serverFunctionScopes (onRequire cfg sc r anc call m st) = serverFunctionScopes st"
  "serverOnlyImports (onRequire cfg sc r anc call m st) = serverOnlyImports st"
  "sideEffectImportViolations (onRequire cfg sc r anc call m st) = sideEffectImportViolations st"
  "reexportViolations (onRequire cfg sc r anc call m st) = reexportViolations st"
  "serverOnlyRequires (onRequire cfg sc r anc call m st) =
     serverOnlyRequires st @ serverOnlyRequires (onRequire cfg sc r anc call m initialState)"
  "bareRequireViolations (onRequire cfg sc r anc call m st) =
     bareRequireViolations st @ bareRequireViolations (onRequire cfg sc r anc call m initialState)"
  by (auto simp: onRequire_def initialState_def Let_def split: node.splits list.splits)

lemma set_fold_addScope: "set (fold addScope xs ys) = set ys \<union> set xs"
  by (induction xs arbitrary: ys) (auto simp: addScope_def)

lemma onServerFunctionCall_fields:
  "hasServerOnlyImport (onServerFunctionCall cfg r anc call st) = hasServerOnlyImport st"
  "serverOnlyImports (onServerFunctionCall cfg r anc call st) = serverOnlyImports st"
  "sideEffectImportViolations (onServerFunctionCall cfg r anc call st) = sideEffectImportViolations st"
  "reexportViolations (onServerFunctionCall cfg r anc call st) = reexportViolations st"
  "serverOnlyRequires (onServerFunctionCall cfg r anc call st) = serverOnlyRequires st"
  "bareRequireViolations (onServerFunctionCall cfg r anc call st) = bareRequireViolations st"
  "set (serverFunctionScopes (onServerFunctionCall cfg r anc call st)) =
     set (serverFunctionScopes st) \<union> set (serverFunctionScopes (onServerFunctionCall cfg r anc call initialState))"
  by (auto simp: onServerFunctionCall_def initialState_def set_fold_addScope split: option.splits)

lemma onCallExpression_require:
  "getRequireSource callee args = Some m \<Longrightarrow> m \<noteq> [] \<Longrightarrow>
   onCallExpression cfg sc r anc callee args st =
     onRequire cfg sc r anc (CallExpression callee args) m st"
  by (simp add: onCallExpression_def)

lemma onCallExpression_other:
  "\<not> (\<exists>m. getRequireSource callee args = Some m \<and> m \<noteq> []) \<Longrightarrow>
   onCallExpression cfg sc r anc callee args st =
     onServerFunctionCall cfg r anc (CallExpression callee args) st"
  by (auto simp: onCallExpression_def split: option.splits)

lemma initialState_fields [simp]:
  "hasServerOnlyImport initialState = False"
  "serverOnlyImports initialState = []"
  "serverFunctionScopes initialState = []"
  "serverOnlyRequires initialState = []"
  "bareRequireViolations initialState = []"
  "sideEffectImportViolations initialState = []"
  "reexportViolations initialState = []"
  by (simp_all add: initialState_def)

lemma onCallExpression_all:
  "(hasServerOnlyImport (onCallExpression cfg sc r anc callee args st) =
     (hasServerOnlyImport st \<or> isServerOnlyMarker cfg (CallExpression callee args))) \<and>
    serverOnlyImports (onCallExpression cfg sc r anc callee args st) = serverOnlyImports st \<and>
    sideEffectImportViolations (onCallExpression cfg sc r anc callee args st) = sideEffectImportViolations st \<and>
    reexportViolations (onCallExpression cfg sc r anc callee args st) = reexportViolations st \<and>
    serverOnlyRequires (onCallExpression cfg sc r anc callee args st) =
     serverOnlyRequires st @ serverOnlyRequires (onCallExpression cfg sc r anc callee args initialState) \<and>
    bareRequireViolations (onCallExpression cfg sc r anc callee args st) =
     bareRequireViolations st @ bareRequireViolations (onCallExpression cfg sc r anc callee args initialState) \<and>
    set (serverFunctionScopes (onCallExpression cfg sc r anc callee args st)) =
     set (serverFunctionScopes st)
       \<union> set (serverFunctionScopes (onCallExpression cfg sc r anc callee args initialState))"
proof (cases "\<exists>m. getRequireSource callee args = Some m \<and> m \<noteq> []")
  case True
  then obtain m where m: "getRequireSource callee args = Some m" "m \<noteq> []"
    by blast
  note eq = onCallExpression_require [OF m]
  show ?thesis
    unfolding eq
    using onRequire_fields(6,7) [of cfg sc r anc "CallExpression callee args" m st] m
    by (simp add: onRequire_fields(1-5) isServerOnlyMarker_def)
next
  case False
  note eq = onCallExpression_other [OF False]
  from False have nomark: "getRequireSource callee args \<noteq> Some ''server-only''"
    by auto
  show ?thesis
    unfolding eq
    using onServerFunctionCall_fields(7) [of cfg r anc "CallExpression callee args" st] nomark
    by (simp add: onServerFunctionCall_fields(1-6) isServerOnlyMarker_def)
qed

lemma onCallExpression_fields:
  "hasServerOnlyImport (onCallExpression cfg sc r anc callee args st) =
     (hasServerOnlyImport st \<or> isServerOnlyMarker cfg (CallExpression callee args))"
  "serverOnlyImports (onCallExpression cfg sc r anc callee args st) = serverOnlyImports st"
  "sideEffectImportViolations (onCallExpression cfg sc r anc callee args st) = sideEffectImportViolations st"
  "reexportViolations (onCallExpression cfg sc r anc callee args st) = reexportViolations st"
  "serverOnlyRequires (onCallExpression cfg sc r anc callee args st) =
     serverOnlyRequires st @ serverOnlyRequires (onCallExpression cfg sc r anc callee args initialState)"
  "bareRequireViolations (onCallExpression cfg sc r anc callee args st) =
     bareRequireViolations st @ bareRequireViolations (onCallExpression cfg sc r anc callee args initialState)"
  "set (serverFunctionScopes (onCallExpression cfg sc r anc callee args st)) =
     set (serverFunctionScopes st)
       \<union> set (serverFunctionScopes (onCallExpression cfg sc r anc callee args initialState))"
  by (insert onCallExpression_all [of cfg sc r anc callee args st], blast)+

lemma onExportAllDeclaration_fields:
  "hasServerOnlyImport (onExportAllDeclaration cfg r k src st) = hasServerOnlyImport st"
  "serverFunctionScopes (onExportAllDeclaration cfg r k src st) = serverFunctionScopes st"
  "serverOnlyImports (onExportAllDeclaration cfg r k src st) = serverOnlyImports st"
  "sideEffectImportViolations (onExportAllDeclaration cfg r k src st) = sideEffectImportViolations st"
  "serverOnlyRequires (onExportAllDeclaration cfg r k src st) = serverOnlyRequires st"
  "bareRequireViolations (onExportAllDeclaration cfg r k src st) = bareRequireViolations st"
  "reexportViolations (onExportAllDeclaration cfg r k src st) =
     reexportViolations st @ reexportViolations (onExportAllDeclaration cfg r k src initialState)"
  by (auto simp: onExportAllDeclaration_def split: node.splits literal_value.splits)

lemma onExportNamedDeclaration_fields:
  "hasServerOnlyImport (onExportNamedDeclaration cfg r k decl specs src st) = hasServerOnlyImport st"
  "serverFunctionScopes (onExportNamedDeclaration cfg r k decl specs src st) = serverFunctionScopes st"
  "serverOnlyImports (onExportNamedDeclaration cfg r k decl specs src st) = serverOnlyImports st"
  "sideEffectImportViolations (onExportNamedDeclaration cfg r k decl specs src st) = sideEffectImportViolations st"
  "serverOnlyRequires (onExportNamedDeclaration cfg r k decl specs src st) = serverOnlyRequires st"
  "bareRequireViolations (onExportNamedDeclaration cfg r k decl specs src st) = bareRequireViolations st"
  "reexportViolations (onExportNamedDeclaration cfg r k decl specs src st) =
     reexportViolations st @ reexportViolations (onExportNamedDeclaration cfg r k decl specs src initialState)"
  by (auto simp: onExportNamedDeclaration_def split: node.splits literal_value.splits option.splits)

lemma visit_flag:
  "hasServerOnlyImport (visit cfg sc v st) =
     (hasServerOnlyImport st \<or> isServerOnlyMarker cfg (snd (snd v)))"
  by (cases v; cases "snd (snd v)")
     (simp_all add: visit_def onImportDeclaration_fields(1) onCallExpression_fields(1)
        onExportAllDeclaration_fields(1) onExportNamedDeclaration_fields(1) isServerOnlyMarker_def)

lemma visit_scopes:
  "set (serverFunctionScopes (visit cfg sc v st)) =
     set (serverFunctionScopes st) \<union> set (serverFunctionScopes (visit cfg sc v initialState))"
proof (cases v)
  case (fields r anc n)
  show ?thesis
    using onCallExpression_fields(7) [of cfg sc r anc _ _ st]
    by (cases n)
       (simp_all add: fields visit_def onImportDeclaration_fields(2)
          onExportAllDeclaration_fields(2) onExportNamedDeclaration_fields(2))
qed

lemma visit_imports:
  "serverOnlyImports (visit cfg sc v st) =
     serverOnlyImports st @ serverOnlyImports (visit cfg sc v initialState)"
proof (cases v)
  case (fields r anc n)
  show ?thesis
    using onImportDeclaration_fields(6) [of cfg sc r _ _ _ st]
    by (cases n)
       (simp_all add: fields visit_def onCallExpression_fields(2)
          onExportAllDeclaration_fields(3) onExportNamedDeclaration_fields(3))
qed

lemma visit_sideEffects:
  "sideEffectImportViolations (visit cfg sc v st) =
     sideEffectImportViolations st @ sideEffectImportViolations (visit cfg sc v initialState)"
proof (cases v)
  case (fields r anc n)
  show ?thesis
    using onImportDeclaration_fields(7) [of cfg sc r _ _ _ st]
    by (cases n)
       (simp_all add: fields visit_def onCallExpression_fields(3)
          onExportAllDeclaration_fields(4) onExportNamedDeclaration_fields(4))
qed

lemma visit_requires:
  "serverOnlyRequires (visit cfg sc v st) =
     serverOnlyRequires st @ serverOnlyRequires (visit cfg sc v initialState)"
proof (cases v)
  case (fields r anc n)
  show ?thesis
    using onCallExpression_fields(5) [of cfg sc r anc _ _ st]
    by (cases n)
       (simp_all add: fields visit_def onImportDeclaration_fields(3)
          onExportAllDeclaration_fields(5) onExportNamedDeclaration_fields(5))
qed

lemma visit_bare:
  "bareRequireViolations (visit cfg sc v st) =
     bareRequireViolations st @ bareRequireViolations (visit cfg sc v initialState)"
proof (cases v)
  case (fields r anc n)
  show ?thesis
    using onCallExpression_fields(6) [of cfg sc r anc _ _ st]
    by (cases n)
       (simp_all add: fields visit_def onImportDeclaration_fields(4)
          onExportAllDeclaration_fields(6) onExportNamedDeclaration_fields(6))
qed

lemma visit_reexports:
  "reexportViolations (visit cfg sc v st) =
     reexportViolations st @ reexportViolations (visit cfg sc v initialState)"
proof (cases v)
  case (fields r anc n)
  show ?thesis
    using onExportAllDeclaration_fields(7) [of cfg r _ _ st]
          onExportNamedDeclaration_fields(7) [of cfg r _ _ _ _ st]
    by (cases n)
       (simp_all add: fields visit_def onImportDeclaration_fields(5) onCallExpression_fields(4))
qed

subsection \<open>The state after the walk\<close>

lemma fold_appends:
  assumes "\<And>v st. X (f v st) = X st @ X (f v init)"
  shows "X (fold f vs st) = X st @ concat (map (\<lambda>v. X (f v init)) vs)"
proof (induction vs arbitrary: st)
  case Nil
  show ?case by simp
next
  case (Cons v vs)
  have "X (fold f (v # vs) st) = X (f v st) @ concat (map (\<lambda>v. X (f v init)) vs)"
    using Cons.IH [of "f v st"] by simp
  also have "X (f v st) = X st @ X (f v init)"
    by (rule assms)
  finally show ?case by simp
qed

lemma fold_unions:
  assumes "\<And>v st. set (X (f v st)) = set (X st) \<union> set (X (f v init))"
  shows "set (X (fold f vs st)) = set (X st) \<union> (\<Union>v \<in> set vs. set (X (f v init)))"
proof (induction vs arbitrary: st)
  case Nil
  show ?case by simp
next
  case (Cons v vs)
  have "set (X (fold f (v # vs) st)) = set (X (f v st)) \<union> (\<Union>v \<in> set vs. set (X (f v init)))"
    using Cons.IH [of "f v st"] by simp
  also have "set (X (f v st)) = set (X st) \<union> set (X (f v init))"
    by (rule assms)
  finally show ?case by auto
qed

lemma fold_flag:
  assumes "\<And>v st. F (f v st) = (F st \<or> p v)"
  shows "F (fold f vs st) = (F st \<or> list_ex p vs)"
  by (induction vs arbitrary: st) (simp_all add: assms)

lemma collect_flag: "hasServerOnlyImport (collect cfg sc) = hasMarkerNode cfg sc"
  unfolding collect_def hasMarkerNode_def
  using fold_flag [of hasServerOnlyImport "visit cfg sc" "\<lambda>v. isServerOnlyMarker cfg (snd (snd v))", OF visit_flag]
  by simp

lemma collect_imports:
  "serverOnlyImports (collect cfg sc) =
     concat (map (\<lambda>v. serverOnlyImports (visit cfg sc v initialState)) (nodesOf sc))"
  unfolding collect_def
  using fold_appends [of serverOnlyImports "visit cfg sc" initialState, OF visit_imports] by simp

lemma collect_sideEffects:
  "sideEffectImportViolations (collect cfg sc) =
     concat (map (\<lambda>v. sideEffectImportViolations (visit cfg sc v initialState)) (nodesOf sc))"
  unfolding collect_def
  using fold_appends [of sideEffectImportViolations "visit cfg sc" initialState, OF visit_sideEffects] by simp

lemma collect_requires:
  "serverOnlyRequires (collect cfg sc) =
     concat (map (\<lambda>v. serverOnlyRequires (visit cfg sc v initialState)) (nodesOf sc))"
  unfolding collect_def
  using fold_appends [of serverOnlyRequires "visit cfg sc" initialState, OF visit_requires] by simp

lemma collect_bare:
  "bareRequireViolations (collect cfg sc) =
     concat (map (\<lambda>v. bareRequireViolations (visit cfg sc v initialState)) (nodesOf sc))"
  unfolding collect_def
  using fold_appends [of bareRequireViolations "visit cfg sc" initialState, OF visit_bare] by simp

lemma collect_reexports:
  "reexportViolations (collect cfg sc) =
     concat (map (\<lambda>v. reexportViolations (visit cfg sc v initialState)) (nodesOf sc))"
  unfolding collect_def
  using fold_appends [of reexportViolations "visit cfg sc" initialState, OF visit_reexports] by simp

lemma collect_scopes:
  "set (boundaryScopes cfg sc) =
     (\<Union>v \<in> set (nodesOf sc). set (serverFunctionScopes (visit cfg sc v initialState)))"
  unfolding collect_def boundaryScopes_def
  using fold_unions [of serverFunctionScopes "visit cfg sc" initialState, OF visit_scopes] by simp

subsection \<open>The marker\<close>

lemma onProgramExit_marker: "hasServerOnlyImport st \<Longrightarrow> onProgramExit cfg sc st = []"
  by (simp add: onProgramExit_def)

text \<open>
  Claim C2. When the file has a marker node (an import of \<^verbatim>\<open>'server-only'\<close> or a
  \<^verbatim>\<open>require('server-only')\<close>, with \<^verbatim>\<open>checkServerOnlyMarker\<close> on), the analysis
  reports nothing at all, whatever else the file contains.
\<close>

theorem marker_suppresses_every_violation:
  assumes "hasMarkerNode (mergeOptions options) sourceCode"
  shows "runRule globMatch options rawFilename sourceCode = []"
  using assms
  by (simp add: runRule_def Let_def onProgramExit_marker collect_flag)

theorem marker_suppresses_every_violation_witness:
  "hasMarkerNode (mergeOptions noOptions) markedFile
   \<and> runRule exampleGlob noOptions routesPath markedFile = []"
proof -
  have m: "hasMarkerNode (mergeOptions noOptions) markedFile"
    by code_simp
  from m marker_suppresses_every_violation [OF m, of exampleGlob routesPath]
  show ?thesis by simp
qed

subsection \<open>Two analyses of one file\<close>

lemma fold_callListener:
  "frame < length heap \<Longrightarrow>
   fold (callListener cfg sc frame) vs heap =
     heap[frame := fold (visit cfg sc) vs (heap ! frame)]"
  by (induction vs arbitrary: heap) (simp_all add: callListener_def)

text \<open>On any heap an analysis reports what \<open>runRule\<close> reports.\<close>

lemma analyse_runRule:
  "fst (analyse globMatch options rawFilename sourceCode heap) =
     runRule globMatch options rawFilename sourceCode"
  by (simp add: analyse_def create_def runRule_def collect_def Let_def fold_callListener)

text \<open>
  The heap that an analysis leaves: the heap it found, followed by its own
  environment, which holds what the walk collected.
\<close>

lemma analyse_heap:
  "snd (analyse globMatch options rawFilename sourceCode heap) =
     heap @ [if isAnalyzed globMatch (mergeOptions options) rawFilename
             then collect (mergeOptions options) sourceCode else initialState]"
  by (cases "mode (mergeOptions options)")
     (simp_all add: analyse_def create_def isAnalyzed_def collect_def Let_def fold_callListener)

text \<open>
  Claim C9. Two analyses of the same tree with the same configuration, the second one
  on the heap that the first one leaves, report the same diagnostics, whatever the
  heap before the first; and the first analysis changes no environment that it found
  on the heap.
\<close>

theorem second_analysis_same_diagnostics:
  "fst (analyse globMatch options rawFilename sourceCode
          (snd (analyse globMatch options rawFilename sourceCode heap))) =
     fst (analyse globMatch options rawFilename sourceCode heap)
   \<and> take (length heap) (snd (analyse globMatch options rawFilename sourceCode heap)) = heap"
  by (simp add: analyse_runRule analyse_heap)

text \<open>
  For \<open>unusedImportFile\<close> the first analysis leaves an environment with one tracked
  import on the heap, and both analyses report one diagnostic.
\<close>

lemma first_analysis_leaves_state:
  "length (snd (analyse exampleGlob noOptions routesPath unusedImportFile [])) = 1
   \<and> length (serverOnlyImports
        (snd (analyse exampleGlob noOptions routesPath unusedImportFile []) ! 0)) = 1
   \<and> length (fst (analyse exampleGlob noOptions routesPath unusedImportFile [])) = 1
   \<and> length (fst (analyse exampleGlob noOptions routesPath unusedImportFile
        (snd (analyse exampleGlob noOptions routesPath unusedImportFile [])))) = 1"
  by code_simp

text \<open>
  The callbacks themselves accumulate: a second walk over the environment of the
  first, without a new call of \<^verbatim>\<open>create\<close>, would report the import twice.
\<close>

lemma walk_on_used_state_reports_twice:
  "length (onProgramExit (mergeOptions noOptions) unusedImportFile
     (fold (visit (mergeOptions noOptions) unusedImportFile) (nodesOf unusedImportFile)
        (collect (mergeOptions noOptions) unusedImportFile))) = 2"
  by code_simp

subsection \<open>Files without a static reference\<close>

lemma visit_no_reference:
  assumes "\<not> staticServerReference cfg (snd (snd v))"
  shows "serverOnlyImports (visit cfg sc v initialState) = []"
    and "sideEffectImportViolations (visit cfg sc v initialState) = []"
    and "serverOnlyRequires (visit cfg sc v initialState) = []"
    and "bareRequireViolations (visit cfg sc v initialState) = []"
    and "reexportViolations (visit cfg sc v initialState) = []"
proof -
  obtain r anc n where v: "v = (r, anc, n)"
    by (cases v)
  have imp: "serverOnlyImports (onImportDeclaration cfg sc r k specs src initialState) = []
           \<and> sideEffectImportViolations (onImportDeclaration cfg sc r k specs src initialState) = []"
    if "\<not> staticServerReference cfg (ImportDeclaration k specs src)" for k specs src
    using that
    by (auto simp: staticServerReference_def onImportDeclaration_def Let_def
             split: node.splits literal_value.splits)
  have call: "serverOnlyRequires (onCallExpression cfg sc r anc callee args initialState) = []
           \<and> bareRequireViolations (onCallExpression cfg sc r anc callee args initialState) = []"
    if "\<not> staticServerReference cfg (CallExpression callee args)" for callee args
    using that
    by (auto simp: staticServerReference_def onCallExpression_def onRequire_def
                   onServerFunctionCall_fields
             split: option.splits)
  have ex1: "reexportViolations (onExportAllDeclaration cfg r k src initialState) = []"
    if "\<not> staticServerReference cfg (ExportAllDeclaration k src)" for k src
    using that
    by (auto simp: staticServerReference_def onExportAllDeclaration_def
             split: node.splits literal_value.splits)
  have ex2: "reexportViolations (onExportNamedDeclaration cfg r k d specs src initialState) = []"
    if "\<not> staticServerReference cfg (ExportNamedDeclaration k d specs src)" for k d specs src
    using that
    by (auto simp: staticServerReference_def onExportNamedDeclaration_def
             split: node.splits literal_value.splits option.splits)
  show "serverOnlyImports (visit cfg sc v initialState) = []"
    using assms imp
    by (cases n) (simp_all add: v visit_def onCallExpression_fields(2)
         onExportAllDeclaration_fields(3) onExportNamedDeclaration_fields(3))
  show "sideEffectImportViolations (visit cfg sc v initialState) = []"
    using assms imp
    by (cases n) (simp_all add: v visit_def onCallExpression_fields(3)
         onExportAllDeclaration_fields(4) onExportNamedDeclaration_fields(4))
  show "serverOnlyRequires (visit cfg sc v initialState) = []"
    using assms call
    by (cases n) (simp_all add: v visit_def onImportDeclaration_fields(3)
         onExportAllDeclaration_fields(5) onExportNamedDeclaration_fields(5))
  show "bareRequireViolations (visit cfg sc v initialState) = []"
    using assms call
    by (cases n) (simp_all add: v visit_def onImportDeclaration_fields(4)
         onExportAllDeclaration_fields(6) onExportNamedDeclaration_fields(6))
  show "reexportViolations (visit cfg sc v initialState) = []"
    using assms ex1 ex2
    by (cases n) (simp_all add: v visit_def onImportDeclaration_fields(5)
         onCallExpression_fields(4))
qed

lemma concat_map_empty: "(\<And>x. x \<in> set xs \<Longrightarrow> f x = []) \<Longrightarrow> concat (map f xs) = []"
  by (induction xs) auto

text \<open>
  Claim C10. A file in which no import declaration, \<^verbatim>\<open>require\<close> call or
  export-from declaration names a server-only module gets no diagnostic; its dynamic
  \<^verbatim>\<open>import()\<close> expressions may name any module.
\<close>

theorem dynamic_import_never_reported:
  assumes "\<not> list_ex (\<lambda>v. staticServerReference (mergeOptions options) (snd (snd v)))
               (nodesOf sourceCode)"
  shows "runRule globMatch options rawFilename sourceCode = []"
proof -
  let ?cfg = "mergeOptions options"
  from assms have none: "\<not> staticServerReference ?cfg (snd (snd v))"
    if "v \<in> set (nodesOf sourceCode)" for v
    using that by (auto simp: list_ex_iff)
  have "serverOnlyImports (collect ?cfg sourceCode) = []"
       "sideEffectImportViolations (collect ?cfg sourceCode) = []"
       "serverOnlyRequires (collect ?cfg sourceCode) = []"
       "bareRequireViolations (collect ?cfg sourceCode) = []"
       "reexportViolations (collect ?cfg sourceCode) = []"
    unfolding collect_imports collect_sideEffects collect_requires collect_bare collect_reexports
    by (rule concat_map_empty, rule visit_no_reference, rule none, assumption)+
  then have "onProgramExit ?cfg sourceCode (collect ?cfg sourceCode) = []"
    by (simp add: onProgramExit_def reportSideEffectImports_def reportReexports_def
          reportBareRequires_def)
  then show ?thesis
    by (simp add: runRule_def Let_def)
qed

theorem dynamic_import_never_reported_witness:
  "list_ex (\<lambda>v. snd (snd v) = ImportExpression (Literal (StringValue ''pino'')))
     (nodesOf dynamicImportFile)
   \<and> isServerOnlyModule (mergeOptions noOptions) ''pino''
   \<and> runRule exampleGlob noOptions routesPath dynamicImportFile = []"
proof -
  have ex: "list_ex (\<lambda>v. snd (snd v) = ImportExpression (Literal (StringValue ''pino'')))
     (nodesOf dynamicImportFile)"
    by code_simp
  have pino: "isServerOnlyModule (mergeOptions noOptions) ''pino''"
    by code_simp
  have none: "\<not> list_ex (\<lambda>v. staticServerReference (mergeOptions noOptions) (snd (snd v)))
               (nodesOf dynamicImportFile)"
    by code_simp
  from ex pino dynamic_import_never_reported [OF none, of exampleGlob routesPath]
  show ?thesis by simp
qed

subsection \<open>Positions and nodes\<close>

lemma traverse_set:
  "set (traverse r a n) =
     insert (r, a, n) (\<Union>i \<in> {..<length (children n)}. set (traverse (i # r) (n # a) (children n ! i)))"
  by (subst traverse.simps) (auto simp: atLeast0LessThan)

lemma traverse_nodeAt:
  "(r', a', n') \<in> set (traverse r a n) \<Longrightarrow> \<exists>p. r' = rev p @ r \<and> nodeAt n p = Some n'"
proof (induction r a n rule: traverse.induct)
  case (1 r a n)
  from "1.prems" consider "(r', a', n') = (r, a, n)"
    | i where "i < length (children n)" "(r', a', n') \<in> set (traverse (i # r) (n # a) (children n ! i))"
    unfolding traverse_set [of r a n] by auto
  then show ?case
  proof cases
    case 1
    then have "r' = rev [] @ r \<and> nodeAt n [] = Some n'"
      by simp
    then show ?thesis by blast
  next
    case 2
    with "1.IH" [of i] obtain p where "r' = rev p @ i # r" "nodeAt (children n ! i) p = Some n'"
      by auto
    with 2(1) have "r' = rev (i # p) @ r \<and> nodeAt n (i # p) = Some n'"
      by simp
    then show ?thesis by blast
  qed
qed

lemma nodesOf_nodeAt:
  "(r, a, n) \<in> set (nodesOf sc) \<Longrightarrow> nodeAt (Program (body sc)) (rev r) = Some n"
  unfolding nodesOf_def by (drule traverse_nodeAt) auto

lemma nodesOf_unique:
  "(r, a, n) \<in> set (nodesOf sc) \<Longrightarrow> (r, a', n') \<in> set (nodesOf sc) \<Longrightarrow> n' = n"
  by (drule nodesOf_nodeAt)+ simp

lemma nodeAt_append:
  "nodeAt n (p @ q) = (case nodeAt n p of None \<Rightarrow> None | Some m \<Rightarrow> nodeAt m q)"
  by (induction p arbitrary: n) auto

lemma nodesOf_child:
  assumes "(r, a, n) \<in> set (nodesOf sc)" and "(i # r, a', n') \<in> set (nodesOf sc)"
  shows "i < length (children n) \<and> n' = children n ! i"
proof -
  from assms(1) have "nodeAt (Program (body sc)) (rev r) = Some n"
    by (rule nodesOf_nodeAt)
  moreover from nodesOf_nodeAt [OF assms(2)]
  have "nodeAt (Program (body sc)) (rev r @ [i]) = Some n'"
    by simp
  ultimately show ?thesis
    by (auto simp: nodeAt_append split: if_splits)
qed

lemma traverse_children_visited:
  "(r', a', n') \<in> set (traverse r a n) \<Longrightarrow> i < length (children n') \<Longrightarrow>
   (i # r', n' # a', children n' ! i) \<in> set (traverse r a n)"
proof (induction r a n rule: traverse.induct)
  case (1 r a n)
  from "1.prems"(1) consider "(r', a', n') = (r, a, n)"
    | j where "j < length (children n)" "(r', a', n') \<in> set (traverse (j # r) (n # a) (children n ! j))"
    unfolding traverse_set [of r a n] by auto
  then show ?case
  proof cases
    case 1
    have "(i # r, n # a, children n ! i) \<in> set (traverse (i # r) (n # a) (children n ! i))"
      by (subst traverse_set) simp
    with 1 "1.prems"(2) show ?thesis
      unfolding traverse_set [of r a n] by auto
  next
    case 2
    with "1.IH" [of j] "1.prems"(2)
    have "(i # r', n' # a', children n' ! i) \<in> set (traverse (j # r) (n # a) (children n ! j))"
      by simp
    with 2(1) show ?thesis
      unfolding traverse_set [of r a n] by auto
  qed
qed

lemma nodesOf_children_visited:
  "(r, a, n) \<in> set (nodesOf sc) \<Longrightarrow> i < length (children n) \<Longrightarrow>
   (i # r, n # a, children n ! i) \<in> set (nodesOf sc)"
  unfolding nodesOf_def by (rule traverse_children_visited)

subsection \<open>Where a diagnostic comes from\<close>

lemma set_map_concat_map:
  "set (map f (concat (map g xs))) = (\<Union>x \<in> set xs. f ` set (g x))"
  by auto

lemma set_concat_map_concat_map:
  "set (concat (map f (concat (map g xs)))) = (\<Union>x \<in> set xs. \<Union>y \<in> set (g x). set (f y))"
  by auto

lemma set_filter_concat_map:
  "set (filter P (concat (map g xs))) = (\<Union>x \<in> set xs. {y \<in> set (g x). P y})"
  by auto

lemma onProgramExit_set:
  "\<not> hasServerOnlyImport st \<Longrightarrow>
   set (onProgramExit cfg sc st) =
     (\<lambda>(n, m). report n serverOnlyImport m (createSideEffectImportSuggestions m sc))
        ` set (sideEffectImportViolations st)
   \<union> (\<lambda>(n, m). report n serverOnlyImport m (createReexportSuggestions sc))
        ` set (reexportViolations st)
   \<union> (\<lambda>(n, m). report n serverOnlyRequire m (createRequireSuggestions sc))
        ` {x \<in> set (bareRequireViolations st).
             \<not> isInsideServerScope (serverFunctionScopes st) (fst x)}
   \<union> (\<Union>req \<in> set (serverOnlyRequires st). set (reportRequire cfg sc (serverFunctionScopes st) req))
   \<union> (\<Union>imp \<in> set (serverOnlyImports st). set (reportImport cfg sc (serverFunctionScopes st) imp))"
  by (auto simp: onProgramExit_def reportSideEffectImports_def reportReexports_def
        reportBareRequires_def)

lemma diagnostics_by_node:
  assumes "\<not> hasMarkerNode cfg sc"
  shows "set (onProgramExit cfg sc (collect cfg sc)) =
           (\<Union>v \<in> set (nodesOf sc). set (diagnosticsOf cfg sc (boundaryScopes cfg sc) v))"
proof -
  have flag: "\<not> hasServerOnlyImport (collect cfg sc)"
    using assms by (simp add: collect_flag)
  have one: "set (diagnosticsOf cfg sc S v) =
     (\<lambda>(n, m). report n serverOnlyImport m (createSideEffectImportSuggestions m sc))
        ` set (sideEffectImportViolations (visit cfg sc v initialState))
   \<union> (\<lambda>(n, m). report n serverOnlyImport m (createReexportSuggestions sc))
        ` set (reexportViolations (visit cfg sc v initialState))
   \<union> (\<lambda>(n, m). report n serverOnlyRequire m (createRequireSuggestions sc))
        ` {x \<in> set (bareRequireViolations (visit cfg sc v initialState)).
             \<not> isInsideServerScope S (fst x)}
   \<union> (\<Union>req \<in> set (serverOnlyRequires (visit cfg sc v initialState)). set (reportRequire cfg sc S req))
   \<union> (\<Union>imp \<in> set (serverOnlyImports (visit cfg sc v initialState)). set (reportImport cfg sc S imp))"
    for S v
    unfolding diagnosticsOf_def by (subst onProgramExit_set) simp_all
  show ?thesis
    unfolding onProgramExit_set [OF flag] one
      collect_sideEffects collect_reexports collect_bare collect_requires collect_imports
      boundaryScopes_def [symmetric]
    by (simp only: set_concat set_map image_UN Un_iff UN_Un_distrib [symmetric])
       (auto simp: image_iff)
qed

lemma runRule_analyzed:
  "isAnalyzed globMatch (mergeOptions options) rawFilename \<Longrightarrow>
   runRule globMatch options rawFilename sc =
     onProgramExit (mergeOptions options) sc (collect (mergeOptions options) sc)"
  by (cases "mode (mergeOptions options)") (auto simp: runRule_def isAnalyzed_def Let_def)

lemma runRule_subset:
  "set (runRule globMatch options rawFilename sc)
     \<subseteq> set (onProgramExit (mergeOptions options) sc (collect (mergeOptions options) sc))"
  by (auto simp: runRule_def Let_def)

lemma hasViolation_iff:
  "hasViolation cfg scopes vars \<longleftrightarrow>
     (\<exists>v \<in> set vars.
        (\<exists>ref \<in> set (references v). isRead ref
            \<and> \<not> isInsideServerScope scopes (identifierNode ref))
      \<or> ((\<forall>ref \<in> set (references v). \<not> isRead ref) \<and> reportUnusedImports cfg))"
  by (induction vars) (auto simp: Let_def list_ex_iff filter_empty_conv)

lemma isNodeInsideScope_child:
  "isNodeInsideScope r scope \<Longrightarrow> isNodeInsideScope (i # r) scope"
  by simp

lemma isInsideServerScope_child:
  "isInsideServerScope scopes r \<Longrightarrow> isInsideServerScope scopes (i # r)"
  by (auto simp: isInsideServerScope_def list_ex_iff)

lemma diagnosticsOf_set:
  "set (diagnosticsOf cfg sc S v) =
     (\<lambda>(n, m). report n serverOnlyImport m (createSideEffectImportSuggestions m sc))
        ` set (sideEffectImportViolations (visit cfg sc v initialState))
   \<union> (\<lambda>(n, m). report n serverOnlyImport m (createReexportSuggestions sc))
        ` set (reexportViolations (visit cfg sc v initialState))
   \<union> (\<lambda>(n, m). report n serverOnlyRequire m (createRequireSuggestions sc))
        ` {x \<in> set (bareRequireViolations (visit cfg sc v initialState)).
             \<not> isInsideServerScope S (fst x)}
   \<union> (\<Union>req \<in> set (serverOnlyRequires (visit cfg sc v initialState)). set (reportRequire cfg sc S req))
   \<union> (\<Union>imp \<in> set (serverOnlyImports (visit cfg sc v initialState)). set (reportImport cfg sc S imp))"
  unfolding diagnosticsOf_def by (subst onProgramExit_set) simp_all

text \<open>The diagnostics of an import declaration.\<close>

lemma diagnosticsOf_import:
  "diagnosticsOf cfg sc S (r, a, ImportDeclaration k specs src) =
     (case src of
        Literal (StringValue m) \<Rightarrow>
          if (checkServerOnlyMarker cfg \<and> m = ''server-only'') \<or> \<not> isServerOnlyModule cfg m
             \<or> \<not> hasValueImportSpecifiers k specs
          then []
          else if specs = []
          then [report r serverOnlyImport m (createSideEffectImportSuggestions m sc)]
          else if hasViolation cfg S
                    (filter (\<lambda>v. name v \<in> set (getValueImportNames k specs))
                       (getDeclaredVariables sc r))
          then [report (importSourceRef r specs) serverOnlyImport m (createImportSuggestions sc)]
          else []
      | _ \<Rightarrow> [])"
  by (auto simp: diagnosticsOf_def onProgramExit_def visit_def onImportDeclaration_def Let_def
        reportSideEffectImports_def reportReexports_def reportBareRequires_def reportImport_def
        sourceOf_def
      split: node.splits literal_value.splits)

text \<open>The diagnostics of a call expression.\<close>

lemma onRequire_candidates:
  "set (bareRequireViolations (onRequire cfg sc r anc call m initialState)) \<subseteq> {(argumentRef r 0, m)}"
  "req \<in> set (serverOnlyRequires (onRequire cfg sc r anc call m initialState)) \<Longrightarrow>
     node req = (r, call) \<and> moduleName req = m"
  by (auto simp: onRequire_def Let_def split: node.splits list.splits if_splits)

lemma diagnosticsOf_require:
  assumes m: "getRequireSource callee args = Some m" "m \<noteq> []"
      and d: "d \<in> set (diagnosticsOf cfg sc S (r, a, CallExpression callee args))"
  shows "reportNode d = argumentRef r 0 \<and> \<not> isInsideServerScope S r"
proof -
  let ?st = "onRequire cfg sc r a (CallExpression callee args) m initialState"
  have visit: "visit cfg sc (r, a, CallExpression callee args) initialState = ?st"
    by (simp add: visit_def onCallExpression_require [OF m])
  from d consider
      x where "x \<in> set (bareRequireViolations ?st)" "\<not> isInsideServerScope S (fst x)"
              "d = (\<lambda>(n, m). report n serverOnlyRequire m (createRequireSuggestions sc)) x"
    | req where "req \<in> set (serverOnlyRequires ?st)" "d \<in> set (reportRequire cfg sc S req)"
    unfolding diagnosticsOf_set visit
    by (auto simp: onRequire_fields(3-5))
  then show ?thesis
  proof cases
    case 1
    from 1(1) onRequire_candidates(1) [of cfg sc r a "CallExpression callee args" m]
    have x: "x = (argumentRef r 0, m)"
      by auto
    with 1(2) have "\<not> isInsideServerScope S r"
      unfolding argumentRef_def using isInsideServerScope_child by auto
    with 1(3) x show ?thesis
      by (simp add: report_def)
  next
    case 2
    from onRequire_candidates(2) [OF 2(1)] have "node req = (r, CallExpression callee args)"
      by simp
    with 2(2) show ?thesis
      by (auto simp: reportRequire_def report_def split: if_splits)
  qed
qed

lemma diagnosticsOf_other_call:
  assumes "\<not> (\<exists>m. getRequireSource callee args = Some m \<and> m \<noteq> [])"
  shows "diagnosticsOf cfg sc S (r, a, CallExpression callee args) = []"
  by (simp add: diagnosticsOf_def onProgramExit_def visit_def onCallExpression_other [OF assms]
        onServerFunctionCall_fields reportSideEffectImports_def reportReexports_def
        reportBareRequires_def)

lemma diagnosticsOf_call_inside:
  assumes "isInsideServerScope S r"
  shows "diagnosticsOf cfg sc S (r, a, CallExpression callee args) = []"
proof (cases "\<exists>m. getRequireSource callee args = Some m \<and> m \<noteq> []")
  case True
  then obtain m where m: "getRequireSource callee args = Some m" "m \<noteq> []"
    by blast
  from diagnosticsOf_require [OF m] assms
  have "d \<notin> set (diagnosticsOf cfg sc S (r, a, CallExpression callee args))" for d
    by blast
  then show ?thesis
    by (cases "diagnosticsOf cfg sc S (r, a, CallExpression callee args)") auto
next
  case False
  then show ?thesis
    by (rule diagnosticsOf_other_call)
qed

lemma getRequireSource_Some:
  "getRequireSource callee args = Some m \<Longrightarrow> args \<noteq> [] \<and> args ! 0 = Literal (StringValue m)"
  by (auto simp: getRequireSource_def hd_conv_nth
        split: node.splits if_splits literal_value.splits)

lemma diagnosticsOf_import_mem:
  assumes "d \<in> set (diagnosticsOf cfg sc S (r, a, ImportDeclaration k specs src))"
  shows "\<exists>m. src = Literal (StringValue m) \<and> isServerOnlyModule cfg m
            \<and> hasValueImportSpecifiers k specs
            \<and> (if specs = [] then reportNode d = r else reportNode d = importSourceRef r specs)"
proof (cases src)
  case (Literal v)
  show ?thesis
  proof (cases v)
    case (StringValue m)
    with assms Literal show ?thesis
      by (auto simp: diagnosticsOf_import report_def split: if_splits)
  next
    case OtherValue
    with assms Literal show ?thesis
      by (simp add: diagnosticsOf_import)
  qed
qed (use assms in \<open>simp_all add: diagnosticsOf_import\<close>)

lemma diagnosticsOf_exportAll:
  "diagnosticsOf cfg sc S (r, a, ExportAllDeclaration k src) =
     (case src of
        Literal (StringValue m) \<Rightarrow>
          if k \<noteq> TypeKind \<and> isServerOnlyModule cfg m
          then [report (exportAllSourceRef r) serverOnlyImport m (createReexportSuggestions sc)]
          else []
      | _ \<Rightarrow> [])"
  by (auto simp: diagnosticsOf_def onProgramExit_def visit_def onExportAllDeclaration_def
        reportSideEffectImports_def reportReexports_def reportBareRequires_def
      split: node.splits literal_value.splits)

lemma diagnosticsOf_exportNamed:
  "diagnosticsOf cfg sc S (r, a, ExportNamedDeclaration k decl specs source) =
     (case source of
        Some (Literal (StringValue m)) \<Rightarrow>
          if isServerOnlyModule cfg m \<and> hasValueExportSpecifiers k specs
          then [report (exportNamedSourceRef r decl specs) serverOnlyImport m
                  (createReexportSuggestions sc)]
          else []
      | _ \<Rightarrow> [])"
  by (auto simp: diagnosticsOf_def onProgramExit_def visit_def onExportNamedDeclaration_def
        reportSideEffectImports_def reportReexports_def reportBareRequires_def
      split: node.splits literal_value.splits option.splits)

lemma diagnosticsOf_exportAll_mem:
  assumes "d \<in> set (diagnosticsOf cfg sc S (r, a, ExportAllDeclaration k src))"
  shows "\<exists>m. src = Literal (StringValue m) \<and> k \<noteq> TypeKind \<and> reportNode d = exportAllSourceRef r"
proof (cases src)
  case (Literal v)
  with assms show ?thesis
    by (cases v) (auto simp: diagnosticsOf_exportAll report_def split: if_splits)
qed (use assms in \<open>simp_all add: diagnosticsOf_exportAll\<close>)

lemma diagnosticsOf_exportNamed_mem:
  assumes "d \<in> set (diagnosticsOf cfg sc S (r, a, ExportNamedDeclaration k decl specs source))"
  shows "\<exists>m. source = Some (Literal (StringValue m)) \<and> hasValueExportSpecifiers k specs
            \<and> reportNode d = exportNamedSourceRef r decl specs"
proof (cases source)
  case None
  with assms show ?thesis
    by (simp add: diagnosticsOf_exportNamed)
next
  case (Some src)
  show ?thesis
  proof (cases src)
    case (Literal v)
    with assms Some show ?thesis
      by (cases v) (auto simp: diagnosticsOf_exportNamed report_def split: if_splits)
  qed (use assms Some in \<open>simp_all add: diagnosticsOf_exportNamed\<close>)
qed

lemma diagnosticsOf_other_node:
  "diagnosticsOf cfg sc S (r, a, n) = []
   \<or> (\<exists>k specs src. n = ImportDeclaration k specs src)
   \<or> (\<exists>callee args. n = CallExpression callee args)
   \<or> (\<exists>k src. n = ExportAllDeclaration k src)
   \<or> (\<exists>k decl specs src. n = ExportNamedDeclaration k decl specs src)"
  by (cases n)
     (simp_all add: diagnosticsOf_def visit_def onProgramExit_def reportSideEffectImports_def
        reportReexports_def reportBareRequires_def)

text \<open>
  A diagnostic of a node is attached either to the node itself, which is then a
  side-effect import, or to a child of the node that is a string literal.
\<close>

lemma diagnosticsOf_anchor:
  assumes "d \<in> set (diagnosticsOf cfg sc S (r, a, n))"
  shows "(reportNode d = r \<and> (\<exists>k m. n = ImportDeclaration k [] (Literal (StringValue m))))
       \<or> (\<exists>i m. reportNode d = i # r \<and> i < length (children n)
                \<and> children n ! i = Literal (StringValue m))"
proof -
  consider k specs src where "n = ImportDeclaration k specs src"
    | callee args where "n = CallExpression callee args"
    | k src where "n = ExportAllDeclaration k src"
    | k decl specs src where "n = ExportNamedDeclaration k decl specs src"
    | "diagnosticsOf cfg sc S (r, a, n) = []"
    using diagnosticsOf_other_node [of cfg sc S r a n] by blast
  then show ?thesis
  proof cases
    case 1
    from diagnosticsOf_import_mem [of d cfg sc S r a k specs src] assms 1
    obtain m where "src = Literal (StringValue m)"
      "if specs = [] then reportNode d = r else reportNode d = importSourceRef r specs"
      by auto
    with 1 show ?thesis
      by (cases "specs = []") (auto simp: importSourceRef_def nth_append)
  next
    case 2
    show ?thesis
    proof (cases "\<exists>m. getRequireSource callee args = Some m \<and> m \<noteq> []")
      case True
      then obtain m where m: "getRequireSource callee args = Some m" "m \<noteq> []"
        by blast
      from getRequireSource_Some [OF m(1)]
      have arg: "Suc 0 < length (children n)" "children n ! Suc 0 = Literal (StringValue m)"
        by (auto simp: 2)
      from diagnosticsOf_require [OF m] assms have "reportNode d = Suc 0 # r"
        by (simp add: 2 argumentRef_def)
      with arg show ?thesis by blast
    next
      case False
      from diagnosticsOf_other_call [OF False] assms show ?thesis
        by (simp add: 2)
    qed
  next
    case 3
    from diagnosticsOf_exportAll_mem [of d cfg sc S r a k src] assms 3
    obtain m where "src = Literal (StringValue m)" "reportNode d = exportAllSourceRef r"
      by auto
    with 3 show ?thesis
      by (auto simp: exportAllSourceRef_def)
  next
    case 4
    from diagnosticsOf_exportNamed_mem [of d cfg sc S r a k decl specs src] assms 4
    obtain m where "src = Some (Literal (StringValue m))"
      "reportNode d = exportNamedSourceRef r decl specs"
      by auto
    with 4 show ?thesis
      by (auto simp: exportNamedSourceRef_def nth_append)
  next
    case 5
    with assms show ?thesis by simp
  qed
qed

lemma runRule_origin:
  assumes "d \<in> set (runRule globMatch options rawFilename sc)"
  obtains r a n where "(r, a, n) \<in> set (nodesOf sc)"
    and "d \<in> set (diagnosticsOf (mergeOptions options) sc
                   (boundaryScopes (mergeOptions options) sc) (r, a, n))"
proof -
  let ?cfg = "mergeOptions options"
  from assms runRule_subset have d: "d \<in> set (onProgramExit ?cfg sc (collect ?cfg sc))"
    by blast
  then have "\<not> hasMarkerNode ?cfg sc"
    by (auto simp: onProgramExit_marker collect_flag)
  from d diagnostics_by_node [OF this] obtain v where
    "v \<in> set (nodesOf sc)" "d \<in> set (diagnosticsOf ?cfg sc (boundaryScopes ?cfg sc) v)"
    by auto
  moreover obtain r a n where "v = (r, a, n)"
    by (cases v)
  ultimately show ?thesis
    using that by blast
qed

lemma runRule_node_diagnostics:
  assumes "isAnalyzed globMatch (mergeOptions options) rawFilename"
      and "\<not> hasMarkerNode (mergeOptions options) sc"
      and "v \<in> set (nodesOf sc)"
  shows "set (diagnosticsOf (mergeOptions options) sc (boundaryScopes (mergeOptions options) sc) v)
           \<subseteq> set (runRule globMatch options rawFilename sc)"
  using assms(3) unfolding runRule_analyzed [OF assms(1)] diagnostics_by_node [OF assms(2)]
  by blast

subsection \<open>Imports and their bindings\<close>

lemma hasViolation_bindings:
  "hasViolation cfg scopes vars \<longleftrightarrow>
     list_ex (hasUnconfinedRead scopes) vars \<or> (list_ex hasNoRead vars \<and> reportUnusedImports cfg)"
  unfolding hasViolation_iff by (auto simp: list_ex_iff hasUnconfinedRead_def hasNoRead_def)

lemma confined_no_violation:
  "list_all (allReadsConfined scopes) vars \<Longrightarrow>
   \<not> list_ex (hasUnconfinedRead scopes) vars \<and> \<not> list_ex hasNoRead vars"
  by (auto simp: list_all_iff list_ex_iff allReadsConfined_def hasUnconfinedRead_def hasNoRead_def)

lemma diagnosticsOf_tracked_import:
  assumes "isServerOnlyModule cfg m" and "hasValueImportSpecifiers k specs" and "specs \<noteq> []"
      and "\<not> (checkServerOnlyMarker cfg \<and> m = ''server-only'')"
  shows "diagnosticsOf cfg sc S (r, a, ImportDeclaration k specs (Literal (StringValue m))) =
           (if hasViolation cfg S (importBindings sc r k specs)
            then [report (importSourceRef r specs) serverOnlyImport m (createImportSuggestions sc)]
            else [])"
  using assms by (auto simp: diagnosticsOf_import importBindings_def)

lemma marker_import_node:
  assumes "(r, a, ImportDeclaration k specs (Literal (StringValue m))) \<in> set (nodesOf sc)"
      and "\<not> hasMarkerNode cfg sc"
  shows "\<not> (checkServerOnlyMarker cfg \<and> m = ''server-only'')"
  using assms by (force simp: hasMarkerNode_def list_ex_iff isServerOnlyMarker_def)

text \<open>
  Claim C1. In an analyzed file without the marker, take an import declaration of a
  server-only module that has a value specifier (so it has specifiers: an import
  without any is a side-effect import, reported on its own terms). A
  \<^verbatim>\<open>serverOnlyImport\<close> diagnostic is reported on its source if and only if one of its
  bindings has a read outside every boundary scope, or one of its bindings has no
  read and \<^verbatim>\<open>reportUnusedImports\<close> is on. In particular nothing is reported for it
  when every binding is read and all its reads are inside boundary scopes.
\<close>

theorem import_reported_iff_unconfined_or_unused:
  assumes "isAnalyzed globMatch (mergeOptions options) rawFilename"
      and "\<not> hasMarkerNode (mergeOptions options) sourceCode"
      and "(r, ancestors, ImportDeclaration importKind specifiers (Literal (StringValue m)))
             \<in> set (nodesOf sourceCode)"
      and "isServerOnlyModule (mergeOptions options) m"
      and "hasValueImportSpecifiers importKind specifiers"
      and "specifiers \<noteq> []"
  shows "((\<exists>d \<in> set (runRule globMatch options rawFilename sourceCode).
             reportNode d = importSourceRef r specifiers \<and> messageId d = serverOnlyImport)
          \<longleftrightarrow>
            list_ex (hasUnconfinedRead (boundaryScopes (mergeOptions options) sourceCode))
              (importBindings sourceCode r importKind specifiers)
          \<or> (list_ex hasNoRead (importBindings sourceCode r importKind specifiers)
              \<and> reportUnusedImports (mergeOptions options)))
       \<and> (list_all (allReadsConfined (boundaryScopes (mergeOptions options) sourceCode))
              (importBindings sourceCode r importKind specifiers)
            \<longrightarrow> (\<forall>d \<in> set (runRule globMatch options rawFilename sourceCode).
                    reportNode d \<noteq> importSourceRef r specifiers))"
proof -
  let ?cfg = "mergeOptions options"
  let ?S = "boundaryScopes ?cfg sourceCode"
  let ?n = "ImportDeclaration importKind specifiers (Literal (StringValue m))"
  let ?vars = "importBindings sourceCode r importKind specifiers"
  let ?src = "importSourceRef r specifiers"
  let ?diags = "runRule globMatch options rawFilename sourceCode"
  note nomark = marker_import_node [OF assms(3,2)]
  note own = diagnosticsOf_tracked_import [OF assms(4,5,6) nomark, of sourceCode ?S r]
  have onlyIf: "hasViolation ?cfg ?S ?vars" if d: "d \<in> set ?diags" "reportNode d = ?src" for d
  proof -
    from d(1) obtain r' a' n' where v: "(r', a', n') \<in> set (nodesOf sourceCode)"
      and mem: "d \<in> set (diagnosticsOf ?cfg sourceCode ?S (r', a', n'))"
      by (rule runRule_origin)
    from diagnosticsOf_anchor [OF mem] consider
        k' m' where "reportNode d = r'" "n' = ImportDeclaration k' [] (Literal (StringValue m'))"
      | i where "reportNode d = i # r'"
      by blast
    then show ?thesis
    proof cases
      case 1
      with d(2) have "(length specifiers # r, a', n') \<in> set (nodesOf sourceCode)"
        using v by (simp add: importSourceRef_def)
      from nodesOf_child [OF assms(3) this] have "n' = Literal (StringValue m)"
        by (simp add: nth_append)
      with 1(2) show ?thesis by simp
    next
      case 2
      with d(2) have "r' = r"
        by (simp add: importSourceRef_def)
      with v nodesOf_unique [OF assms(3)] have "n' = ?n"
        by blast
      with mem \<open>r' = r\<close> own [of a'] show ?thesis
        by (simp split: if_splits)
    qed
  qed
  have ifPart: "\<exists>d \<in> set ?diags. reportNode d = ?src \<and> messageId d = serverOnlyImport"
    if "hasViolation ?cfg ?S ?vars"
  proof -
    from that own [of ancestors]
    have "report ?src serverOnlyImport m (createImportSuggestions sourceCode)
            \<in> set (diagnosticsOf ?cfg sourceCode ?S (r, ancestors, ?n))"
      by simp
    with runRule_node_diagnostics [OF assms(1,2,3)]
    have "report ?src serverOnlyImport m (createImportSuggestions sourceCode) \<in> set ?diags"
      by blast
    then show ?thesis
      by (rule rev_bexI) (simp add: report_def)
  qed
  from onlyIf ifPart have iff:
    "(\<exists>d \<in> set ?diags. reportNode d = ?src \<and> messageId d = serverOnlyImport)
       \<longleftrightarrow> hasViolation ?cfg ?S ?vars"
    by blast
  have conf: "\<forall>d \<in> set ?diags. reportNode d \<noteq> ?src"
    if "list_all (allReadsConfined ?S) ?vars"
    using onlyIf confined_no_violation [OF that] hasViolation_bindings [of ?cfg ?S ?vars]
    by blast
  from iff conf show ?thesis
    unfolding hasViolation_bindings by blast
qed

theorem import_reported_iff_unconfined_or_unused_witness:
  "list_ex (\<lambda>d. reportNode d = [1, 0] \<and> messageId d = serverOnlyImport)
     (runRule exampleGlob noOptions routesPath unconfinedFile)
   \<and> list_ex (hasUnconfinedRead (boundaryScopes (mergeOptions noOptions) unconfinedFile))
       (importBindings unconfinedFile [0] ValueKind [ImportDefaultSpecifier ''pino''])
   \<and> list_all (allReadsConfined (boundaryScopes (mergeOptions noOptions) confinedFile))
       (importBindings confinedFile [0] ValueKind [ImportDefaultSpecifier ''pino''])
   \<and> \<not> list_ex (\<lambda>d. reportNode d = [1, 0])
         (runRule exampleGlob noOptions routesPath confinedFile)"
proof -
  have an: "isAnalyzed exampleGlob (mergeOptions noOptions) routesPath"
    by code_simp
  have srv: "isServerOnlyModule (mergeOptions noOptions) ''pino''"
    by code_simp
  have val: "hasValueImportSpecifiers ValueKind [ImportDefaultSpecifier ''pino'']"
            "[ImportDefaultSpecifier ''pino''] \<noteq> []"
    by code_simp+
  have m1: "\<not> hasMarkerNode (mergeOptions noOptions) unconfinedFile"
    by code_simp
  have v1: "([0], [Program (body unconfinedFile)],
              ImportDeclaration ValueKind [ImportDefaultSpecifier ''pino''] (Literal (StringValue ''pino'')))
            \<in> set (nodesOf unconfinedFile)"
    by code_simp
  have u1: "list_ex (hasUnconfinedRead (boundaryScopes (mergeOptions noOptions) unconfinedFile))
       (importBindings unconfinedFile [0] ValueKind [ImportDefaultSpecifier ''pino''])"
    by code_simp
  have m2: "\<not> hasMarkerNode (mergeOptions noOptions) confinedFile"
    by code_simp
  have v2: "([0], [Program (body confinedFile)],
              ImportDeclaration ValueKind [ImportDefaultSpecifier ''pino''] (Literal (StringValue ''pino'')))
            \<in> set (nodesOf confinedFile)"
    by code_simp
  have c2: "list_all (allReadsConfined (boundaryScopes (mergeOptions noOptions) confinedFile))
       (importBindings confinedFile [0] ValueKind [ImportDefaultSpecifier ''pino''])"
    by code_simp
  have src: "importSourceRef [0] [ImportDefaultSpecifier ''pino''] = [1, 0]"
    by code_simp
  from import_reported_iff_unconfined_or_unused [OF an m1 v1 srv val] u1
       import_reported_iff_unconfined_or_unused [OF an m2 v2 srv val] c2
  show ?thesis
    unfolding src list_ex_iff by blast
qed

subsection \<open>Requires inside a boundary scope\<close>

text \<open>
  Claim C6. A \<^verbatim>\<open>require\<close> call with a string literal argument (whether or not
  its result is bound in a variable declarator) whose call site is inside a boundary
  scope gets no diagnostic, neither on the call nor on its argument, whatever the
  references of the declared variables are.
\<close>

theorem require_inside_boundary_not_reported:
  assumes "(r, ancestors, CallExpression callee arguments) \<in> set (nodesOf sourceCode)"
      and "getRequireSource callee arguments = Some m"
      and "isInsideServerScope (boundaryScopes (mergeOptions options) sourceCode) r"
  shows "\<forall>d \<in> set (runRule globMatch options rawFilename sourceCode).
           reportNode d \<noteq> argumentRef r 0 \<and> reportNode d \<noteq> r"
proof
  fix d
  let ?cfg = "mergeOptions options"
  let ?S = "boundaryScopes ?cfg sourceCode"
  let ?n = "CallExpression callee arguments"
  assume "d \<in> set (runRule globMatch options rawFilename sourceCode)"
  then obtain r' a' n' where v: "(r', a', n') \<in> set (nodesOf sourceCode)"
    and mem: "d \<in> set (diagnosticsOf ?cfg sourceCode ?S (r', a', n'))"
    by (rule runRule_origin)
  from getRequireSource_Some [OF assms(2)]
  have arg: "children ?n ! Suc 0 = Literal (StringValue m)"
    by simp
  from diagnosticsOf_anchor [OF mem] consider
      k' m' where "reportNode d = r'" "n' = ImportDeclaration k' [] (Literal (StringValue m'))"
    | i m' where "reportNode d = i # r'" "i < length (children n')"
        "children n' ! i = Literal (StringValue m')"
    by blast
  then show "reportNode d \<noteq> argumentRef r 0 \<and> reportNode d \<noteq> r"
  proof cases
    case 1
    have "reportNode d \<noteq> r"
    proof
      assume "reportNode d = r"
      with 1(1) v nodesOf_unique [OF assms(1)] have "n' = ?n"
        by blast
      with 1(2) show False by simp
    qed
    moreover have "reportNode d \<noteq> argumentRef r 0"
    proof
      assume "reportNode d = argumentRef r 0"
      with 1(1) v have "(Suc 0 # r, a', n') \<in> set (nodesOf sourceCode)"
        by (simp add: argumentRef_def)
      from nodesOf_child [OF assms(1) this] arg have "n' = Literal (StringValue m)"
        by simp
      with 1(2) show False by simp
    qed
    ultimately show ?thesis by simp
  next
    case 2
    have "reportNode d \<noteq> r"
    proof
      assume "reportNode d = r"
      with 2(1) assms(1) have "(i # r', ancestors, ?n) \<in> set (nodesOf sourceCode)"
        by simp
      from nodesOf_child [OF v this] 2(3) show False
        by simp
    qed
    moreover have "reportNode d \<noteq> argumentRef r 0"
    proof
      assume "reportNode d = argumentRef r 0"
      with 2(1) have "r' = r"
        by (simp add: argumentRef_def)
      with v nodesOf_unique [OF assms(1)] have "n' = ?n"
        by blast
      with mem \<open>r' = r\<close> diagnosticsOf_call_inside [OF assms(3), of ?cfg sourceCode a' callee arguments]
      show False by simp
    qed
    ultimately show ?thesis by simp
  qed
qed

theorem require_inside_boundary_not_reported_witness:
  "isInsideServerScope (boundaryScopes (mergeOptions noOptions) requireInsideFile)
     [1, 0, 0, 0, 1, 1, 0, 0]
   \<and> list_ex (hasUnconfinedRead (boundaryScopes (mergeOptions noOptions) requireInsideFile))
       (getDeclaredVariables requireInsideFile [0, 0, 1, 1, 0, 0])
   \<and> list_all (\<lambda>d. reportNode d \<noteq> [1, 1, 0, 0, 0, 1, 1, 0, 0]
                   \<and> reportNode d \<noteq> [1, 0, 0, 0, 1, 1, 0, 0])
       (runRule exampleGlob noOptions routesPath requireInsideFile)"
proof -
  have v: "([1, 0, 0, 0, 1, 1, 0, 0],
            [VariableDeclarator (Identifier ''pino'') (Some requireCall),
             VariableDeclaration [VariableDeclarator (Identifier ''pino'') (Some requireCall)],
             OtherNode [VariableDeclaration [VariableDeclarator (Identifier ''pino'') (Some requireCall)]],
             ArrowFunctionExpression [OtherNode [VariableDeclaration
               [VariableDeclarator (Identifier ''pino'') (Some requireCall)]]],
             CallExpression
               (MemberExpression (CallExpression (Identifier ''createServerFn'') [])
                  (Identifier ''handler''))
               [ArrowFunctionExpression [OtherNode [VariableDeclaration
                  [VariableDeclarator (Identifier ''pino'') (Some requireCall)]]]],
             VariableDeclarator (Identifier ''fn'')
               (Some (CallExpression
                  (MemberExpression (CallExpression (Identifier ''createServerFn'') [])
                     (Identifier ''handler''))
                  [ArrowFunctionExpression [OtherNode [VariableDeclaration
                     [VariableDeclarator (Identifier ''pino'') (Some requireCall)]]]])),
             body requireInsideFile ! 0,
             Program (body requireInsideFile)],
            CallExpression (Identifier ''require'') [Literal (StringValue ''pino'')])
           \<in> set (nodesOf requireInsideFile)"
    by code_simp
  have src: "getRequireSource (Identifier ''require'') [Literal (StringValue ''pino'')] = Some ''pino''"
    by code_simp
  have ins: "isInsideServerScope (boundaryScopes (mergeOptions noOptions) requireInsideFile)
     [1, 0, 0, 0, 1, 1, 0, 0]"
    by code_simp
  have out: "list_ex (hasUnconfinedRead (boundaryScopes (mergeOptions noOptions) requireInsideFile))
       (getDeclaredVariables requireInsideFile [0, 0, 1, 1, 0, 0])"
    by code_simp
  have arg: "argumentRef [1, 0, 0, 0, 1, 1, 0, 0] 0 = [1, 1, 0, 0, 0, 1, 1, 0, 0]"
    by code_simp
  from require_inside_boundary_not_reported [OF v src ins, of exampleGlob routesPath] ins out
  show ?thesis
    unfolding arg list_all_iff by blast
qed

subsection \<open>Type-only declarations\<close>

lemma typeOnly_no_own_diagnostic:
  assumes "isTypeOnlyDeclaration n"
  shows "diagnosticsOf cfg sc S (r, a, n) = []"
proof (rule ccontr)
  assume "diagnosticsOf cfg sc S (r, a, n) \<noteq> []"
  then obtain d where d: "d \<in> set (diagnosticsOf cfg sc S (r, a, n))"
    by (cases "diagnosticsOf cfg sc S (r, a, n)") auto
  from assms consider k specs src where "n = ImportDeclaration k specs src"
    | k src where "n = ExportAllDeclaration k src"
    | k decl specs src where "n = ExportNamedDeclaration k decl specs src"
    by (cases n) (simp_all add: isTypeOnlyDeclaration_def)
  then show False
  proof cases
    case 1
    from diagnosticsOf_import_mem [of d cfg sc S r a k specs src] d 1
    have "hasValueImportSpecifiers k specs"
      by auto
    with assms 1 show False
      by (auto simp: isTypeOnlyDeclaration_def hasValueImportSpecifiers_def
            split: node.splits literal_value.splits if_splits)
  next
    case 2
    from diagnosticsOf_exportAll_mem [of d cfg sc S r a k src] d 2
    have "k \<noteq> TypeKind"
      by auto
    with assms 2 show False
      by (auto simp: isTypeOnlyDeclaration_def split: node.splits literal_value.splits)
  next
    case 3
    from diagnosticsOf_exportNamed_mem [of d cfg sc S r a k decl specs src] d 3
    have "hasValueExportSpecifiers k specs"
      by auto
    with assms 3 show False
      by (auto simp: isTypeOnlyDeclaration_def hasValueExportSpecifiers_def
            split: node.splits literal_value.splits if_splits option.splits)
  qed
qed

lemma typeOnly_source_child:
  assumes "isTypeOnlyDeclaration n"
  shows "\<exists>i m. declarationSourceRef r n = i # r \<and> i < length (children n)
           \<and> children n ! i = Literal (StringValue m)"
  using assms
  by (cases n)
     (auto simp: isTypeOnlyDeclaration_def declarationSourceRef_def importSourceRef_def
        exportAllSourceRef_def exportNamedSourceRef_def nth_append
      split: node.splits literal_value.splits option.splits)

lemma typeOnly_not_literal:
  "isTypeOnlyDeclaration n \<Longrightarrow> n \<noteq> Literal v"
  by (auto simp: isTypeOnlyDeclaration_def)

text \<open>
  Claim C8. An import declaration, an export-from declaration or an
  \<^verbatim>\<open>export * from\<close> that brings in types only (the whole declaration is of kind
  \<^verbatim>\<open>type\<close>, or it has specifiers and all of them are \<^verbatim>\<open>type\<close> specifiers) gets
  no diagnostic, neither on the declaration nor on its source, for every file,
  path and configuration.
\<close>

theorem type_only_declaration_not_reported:
  assumes "(r, ancestors, n) \<in> set (nodesOf sourceCode)"
      and "isTypeOnlyDeclaration n"
  shows "\<forall>d \<in> set (runRule globMatch options rawFilename sourceCode).
           reportNode d \<noteq> r \<and> reportNode d \<noteq> declarationSourceRef r n"
proof
  fix d
  let ?cfg = "mergeOptions options"
  let ?S = "boundaryScopes ?cfg sourceCode"
  assume "d \<in> set (runRule globMatch options rawFilename sourceCode)"
  then obtain r' a' n' where v: "(r', a', n') \<in> set (nodesOf sourceCode)"
    and mem: "d \<in> set (diagnosticsOf ?cfg sourceCode ?S (r', a', n'))"
    by (rule runRule_origin)
  from typeOnly_source_child [OF assms(2), of r] obtain j m where
    src: "declarationSourceRef r n = j # r" "j < length (children n)"
         "children n ! j = Literal (StringValue m)"
    by blast
  have own: "r' \<noteq> r"
  proof
    assume "r' = r"
    with v nodesOf_unique [OF assms(1)] have "n' = n"
      by blast
    with mem typeOnly_no_own_diagnostic [OF assms(2), of ?cfg sourceCode ?S r' a'] show False
      by simp
  qed
  from diagnosticsOf_anchor [OF mem] consider
      k' m' where "reportNode d = r'" "n' = ImportDeclaration k' [] (Literal (StringValue m'))"
    | i m' where "reportNode d = i # r'" "i < length (children n')"
        "children n' ! i = Literal (StringValue m')"
    by blast
  then show "reportNode d \<noteq> r \<and> reportNode d \<noteq> declarationSourceRef r n"
  proof cases
    case 1
    have "reportNode d \<noteq> declarationSourceRef r n"
    proof
      assume "reportNode d = declarationSourceRef r n"
      with 1(1) src(1) v have "(j # r, a', n') \<in> set (nodesOf sourceCode)"
        by simp
      from nodesOf_child [OF assms(1) this] src(3) 1(2) show False
        by simp
    qed
    with 1(1) own show ?thesis by simp
  next
    case 2
    have "reportNode d \<noteq> r"
    proof
      assume "reportNode d = r"
      with 2(1) assms(1) have "(i # r', ancestors, n) \<in> set (nodesOf sourceCode)"
        by simp
      from nodesOf_child [OF v this] 2(3) typeOnly_not_literal [OF assms(2)] show False
        by simp
    qed
    moreover have "reportNode d \<noteq> declarationSourceRef r n"
      using 2(1) src(1) own by simp
    ultimately show ?thesis by simp
  qed
qed

theorem type_only_declaration_not_reported_witness:
  "list_all (\<lambda>d. reportNode d \<noteq> [0] \<and> reportNode d \<noteq> [1, 0])
     (runRule exampleGlob noOptions routesPath typeOnlyFile)
   \<and> list_all (\<lambda>d. reportNode d \<noteq> [2] \<and> reportNode d \<noteq> [1, 2])
       (runRule exampleGlob noOptions routesPath typeOnlyFile)
   \<and> isServerOnlyModule (mergeOptions noOptions) ''pino''
   \<and> isServerOnlyModule (mergeOptions noOptions) ''pg''"
proof -
  let ?imp = "ImportDeclaration TypeKind [ImportSpecifier ValueKind ''Logger'']
                 (Literal (StringValue ''pino''))"
  let ?exp = "ExportNamedDeclaration ValueKind None [ExportSpecifier TypeKind]
                 (Some (Literal (StringValue ''pg'')))"
  have v1: "([0], [Program (body typeOnlyFile)], ?imp) \<in> set (nodesOf typeOnlyFile)"
    by code_simp
  have t1: "isTypeOnlyDeclaration ?imp"
    by code_simp
  have s1: "declarationSourceRef [0] ?imp = [1, 0]"
    by code_simp
  have v2: "([2], [Program (body typeOnlyFile)], ?exp) \<in> set (nodesOf typeOnlyFile)"
    by code_simp
  have t2: "isTypeOnlyDeclaration ?exp"
    by code_simp
  have s2: "declarationSourceRef [2] ?exp = [1, 2]"
    by code_simp
  have srv: "isServerOnlyModule (mergeOptions noOptions) ''pino''"
            "isServerOnlyModule (mergeOptions noOptions) ''pg''"
    by code_simp+
  from type_only_declaration_not_reported [OF v1 t1, of exampleGlob noOptions routesPath]
       type_only_declaration_not_reported [OF v2 t2, of exampleGlob noOptions routesPath] srv
  show ?thesis
    unfolding s1 s2 list_all_iff by blast
qed

subsection \<open>Call chains\<close>

lemma callChain_cases:
  assumes "(r', c') \<in> set (callChain r (CallExpression callee arguments))"
  obtains "(r', c') = (r, CallExpression callee arguments)"
    | object property c a0 where "callee = MemberExpression object property"
        "object = CallExpression c a0" "(r', c') \<in> set (callChain (0 # 0 # r) object)"
  using assms unfolding callChain.simps(1) [of r callee arguments]
  by (auto split: node.splits)

lemma callChain_visited:
  "(r, a, call) \<in> set (nodesOf sc) \<Longrightarrow> (r', c') \<in> set (callChain r call) \<Longrightarrow>
   \<exists>a'. (r', a', c') \<in> set (nodesOf sc)"
proof (induction r call arbitrary: a rule: callChain.induct)
  case (1 r callee arguments)
  let ?call = "CallExpression callee arguments"
  from "1.prems"(2) show ?case
  proof (cases rule: callChain_cases)
    case 1
    with "1.prems"(1) show ?thesis by auto
  next
    case (2 object property c a0)
    from nodesOf_children_visited [OF "1.prems"(1), of 0]
    have "(0 # r, ?call # a, callee) \<in> set (nodesOf sc)"
      by simp
    from nodesOf_children_visited [OF this, of 0] 2(1)
    have "(0 # 0 # r, callee # ?call # a, object) \<in> set (nodesOf sc)"
      by simp
    from "1.IH" [OF 2(1,2) this 2(3)] show ?thesis .
  qed
qed (simp_all add: callChain.simps)

lemma findServerFunctionCall_member:
  "findServerFunctionCall cfg (CallExpression (MemberExpression (CallExpression c a0) property) arguments)
     = findServerFunctionCall cfg (CallExpression c a0)"
  by (subst findServerFunctionCall.simps) simp

lemma callChain_resolves:
  "findServerFunctionCall cfg call = Some root \<Longrightarrow> (r', c') \<in> set (callChain r call) \<Longrightarrow>
   findServerFunctionCall cfg c' = Some root"
proof (induction r call rule: callChain.induct)
  case (1 r callee arguments)
  from "1.prems"(2) show ?case
  proof (cases rule: callChain_cases)
    case 1
    with "1.prems"(1) show ?thesis by simp
  next
    case (2 object property c a0)
    from "1.prems"(1) 2(1,2) have "findServerFunctionCall cfg object = Some root"
      by (simp add: findServerFunctionCall_member)
    from "1.IH" [OF 2(1,2) this 2(3)] show ?thesis .
  qed
qed (simp_all add: callChain.simps)

lemma functionArguments_mem:
  "j < length args \<Longrightarrow> isFunctionArgument (args ! j) \<Longrightarrow>
   argumentRef r j \<in> set (functionArguments r args)"
  by (auto simp: functionArguments_def)

lemma extractCallbacksFromChain_own:
  "set (functionArguments r args)
     \<subseteq> set (extractCallbacksFromChain r a (CallExpression callee args))"
  by (subst extractCallbacksFromChain.simps) simp

lemma onServerFunctionCall_scopes:
  assumes "checkServerFunctions cfg" and "findServerFunctionCall cfg call = Some root"
  shows "set (serverFunctionScopes (onServerFunctionCall cfg r a call initialState)) =
           set (extractCallbacksFromChain r a call)"
  using assms by (simp add: onServerFunctionCall_def set_fold_addScope)

text \<open>
  Claim C3, as amended. With \<^verbatim>\<open>checkServerFunctions\<close> on, when a visited call
  resolves to a root call whose callee is an identifier in
  \<^verbatim>\<open>serverFunctionNames\<close>, every function-expression or arrow-function argument of
  every call of its chain is a boundary scope of the file, for each call of the chain
  that does not itself take the \<^verbatim>\<open>require\<close> branch of the callback.
\<close>

theorem chain_callbacks_registered:
  assumes "checkServerFunctions (mergeOptions options)"
      and "(r, ancestors, call) \<in> set (nodesOf sourceCode)"
      and "findServerFunctionCall (mergeOptions options) call = Some root"
      and "(r', CallExpression callee' arguments') \<in> set (callChain r call)"
      and "\<not> isRequireCall (CallExpression callee' arguments')"
      and "j < length arguments'"
      and "isFunctionArgument (arguments' ! j)"
  shows "argumentRef r' j \<in> set (boundaryScopes (mergeOptions options) sourceCode)"
proof -
  let ?cfg = "mergeOptions options"
  let ?c = "CallExpression callee' arguments'"
  from callChain_visited [OF assms(2,4)] obtain a' where
    v: "(r', a', ?c) \<in> set (nodesOf sourceCode)"
    by blast
  from callChain_resolves [OF assms(3,4)] have root: "findServerFunctionCall ?cfg ?c = Some root" .
  from assms(5) have "\<not> (\<exists>m. getRequireSource callee' arguments' = Some m \<and> m \<noteq> [])"
    by (auto simp: isRequireCall_def)
  then have "visit ?cfg sourceCode (r', a', ?c) initialState =
               onServerFunctionCall ?cfg r' a' ?c initialState"
    by (simp add: visit_def onCallExpression_other)
  with onServerFunctionCall_scopes [OF assms(1) root, of r' a']
  have "set (serverFunctionScopes (visit ?cfg sourceCode (r', a', ?c) initialState)) =
          set (extractCallbacksFromChain r' a' ?c)"
    by simp
  with functionArguments_mem [OF assms(6,7), of r'] extractCallbacksFromChain_own [of r' arguments' a' callee']
  have "argumentRef r' j \<in> set (serverFunctionScopes (visit ?cfg sourceCode (r', a', ?c) initialState))"
    by blast
  with v show ?thesis
    unfolding collect_scopes by blast
qed

theorem chain_callbacks_registered_witness:
  "argumentRef [0, 0] 0 \<in> set (boundaryScopes (mergeOptions noOptions) chainFile)
   \<and> argumentRef [0, 0, 0, 0] 0 \<in> set (boundaryScopes (mergeOptions noOptions) chainFile)
   \<and> callChain [0, 0] handlerCall =
       [([0, 0], handlerCall), ([0, 0, 0, 0], validatorCall),
        ([0, 0, 0, 0, 0, 0], CallExpression (Identifier ''createServerFn'') [])]"
proof -
  have on: "checkServerFunctions (mergeOptions noOptions)"
    by code_simp
  have v: "([0, 0], [ExpressionStatement handlerCall, Program (body chainFile)], handlerCall)
             \<in> set (nodesOf chainFile)"
    by code_simp
  have root: "findServerFunctionCall (mergeOptions noOptions) handlerCall =
                Some (CallExpression (Identifier ''createServerFn'') [])"
    by code_simp
  have c1: "([0, 0], CallExpression (MemberExpression validatorCall (Identifier ''handler''))
                [ArrowFunctionExpression []]) \<in> set (callChain [0, 0] handlerCall)"
    by code_simp
  have c2: "([0, 0, 0, 0], CallExpression
                (MemberExpression (CallExpression (Identifier ''createServerFn'') [])
                   (Identifier ''validator''))
                [FunctionExpression []]) \<in> set (callChain [0, 0] handlerCall)"
    by code_simp
  have n1: "\<not> isRequireCall (CallExpression (MemberExpression validatorCall (Identifier ''handler''))
                [ArrowFunctionExpression []])"
    by code_simp
  have n2: "\<not> isRequireCall (CallExpression
                (MemberExpression (CallExpression (Identifier ''createServerFn'') [])
                   (Identifier ''validator''))
                [FunctionExpression []])"
    by code_simp
  have f1: "(0::nat) < length [ArrowFunctionExpression []]"
           "isFunctionArgument ([ArrowFunctionExpression []] ! 0)"
    by code_simp+
  have f2: "(0::nat) < length [FunctionExpression []]"
           "isFunctionArgument ([FunctionExpression []] ! 0)"
    by code_simp+
  have chain: "callChain [0, 0] handlerCall =
       [([0, 0], handlerCall), ([0, 0, 0, 0], validatorCall),
        ([0, 0, 0, 0, 0, 0], CallExpression (Identifier ''createServerFn'') [])]"
    by code_simp
  from chain_callbacks_registered [OF on v root c1 n1 f1]
       chain_callbacks_registered [OF on v root c2 n2 f2] chain
  show ?thesis by simp
qed

text \<open>
  With \<^verbatim>\<open>checkServerFunctions\<close> off the chain of \<open>chainFile\<close> still resolves to its
  root, and its arrow function is not registered.
\<close>

theorem chain_callbacks_unregistered_when_disabled:
  "([0, 0], [ExpressionStatement handlerCall, Program (body chainFile)], handlerCall)
       \<in> set (nodesOf chainFile)
   \<and> findServerFunctionCall (mergeOptions (noOptions\<lparr>opt_checkServerFunctions := Some False\<rparr>))
         handlerCall = Some (CallExpression (Identifier ''createServerFn'') [])
   \<and> handlerCall = CallExpression (MemberExpression validatorCall (Identifier ''handler''))
                      [ArrowFunctionExpression []]
   \<and> isFunctionArgument (ArrowFunctionExpression [])
   \<and> argumentRef [0, 0] 0
         \<notin> set (boundaryScopes (mergeOptions (noOptions\<lparr>opt_checkServerFunctions := Some False\<rparr>))
                  chainFile)"
  by code_simp

subsection \<open>The marker fix\<close>

lemma takeWhile_directives:
  "\<not> list_all isDirectivePrologue stmts \<Longrightarrow>
   length (takeWhile isDirectivePrologue stmts) < length stmts
   \<and> \<not> isDirectivePrologue (stmts ! length (takeWhile isDirectivePrologue stmts))
   \<and> (\<forall>i < length (takeWhile isDirectivePrologue stmts). isDirectivePrologue (stmts ! i))"
  by (induction stmts) (auto simp: nth_Cons')

text \<open>
  The helper: when some statement is not a directive prologue, the fix inserts the
  marker import at the start of the first such statement, after the leading directive
  prologues.
\<close>

lemma marker_fix_before_first_statement:
  assumes "\<not> hasUseClientDirective sourceCode"
      and "\<not> markerImportFrom True (getText sourceCode)"
      and "\<not> list_all isDirectivePrologue (body sourceCode)"
  shows "\<exists>i < length (body sourceCode).
           map suggestionFix (createServerOnlyMarkerSuggestion sourceCode) =
             [\<lparr> fixRange = (fst (nodeRange sourceCode [i]), fst (nodeRange sourceCode [i])),
                fixText = markerImportText \<rparr>]
         \<and> \<not> isDirectivePrologue (body sourceCode ! i)
         \<and> (\<forall>j < i. isDirectivePrologue (body sourceCode ! j))"
proof -
  let ?i = "length (takeWhile isDirectivePrologue (body sourceCode))"
  from takeWhile_directives [OF assms(3)] have i: "?i < length (body sourceCode)"
    "\<not> isDirectivePrologue (body sourceCode ! ?i)"
    "\<forall>j < ?i. isDirectivePrologue (body sourceCode ! j)"
    by blast+
  from i(1) have "findServerOnlyMarkerInsertNode sourceCode = Some [?i]"
    by (auto simp: findServerOnlyMarkerInsertNode_def Let_def)
  with assms(1,2) have "map suggestionFix (createServerOnlyMarkerSuggestion sourceCode) =
      [\<lparr> fixRange = (fst (nodeRange sourceCode [?i]), fst (nodeRange sourceCode [?i])),
         fixText = markerImportText \<rparr>]"
    by (simp add: createServerOnlyMarkerSuggestion_def insertTextBefore_def
          insertTextBeforeRange_def)
  with i show ?thesis
    by (intro exI [where x = ?i]) simp
qed

lemma nodeAt_directive:
  assumes "isDirectivePrologue s" and "nodeAt s p = Some n"
  shows "(\<exists>e. n = ExpressionStatement e) \<or> (\<exists>v. n = Literal v)"
proof -
  from assms(1) obtain v where s: "s = ExpressionStatement (Literal (StringValue v))"
    by (auto simp: isDirectivePrologue_def split: node.splits literal_value.splits)
  show ?thesis
  proof (cases p)
    case Nil
    with assms(2) s show ?thesis by auto
  next
    case (Cons i q)
    with assms(2) s have i: "i = 0" and q: "nodeAt (Literal (StringValue v)) q = Some n"
      by (auto split: if_splits)
    from q show ?thesis
      by (cases q) auto
  qed
qed

text \<open>
  Whenever the rule reports a diagnostic, some statement of the file is not a
  directive prologue: the suggestion of a reported diagnostic never meets a file
  whose statements are all directive prologues.
\<close>

lemma diagnostic_needs_statement:
  assumes "d \<in> set (runRule globMatch options rawFilename sourceCode)"
  shows "\<not> list_all isDirectivePrologue (body sourceCode)"
proof
  assume all: "list_all isDirectivePrologue (body sourceCode)"
  let ?cfg = "mergeOptions options"
  from assms obtain r a n where v: "(r, a, n) \<in> set (nodesOf sourceCode)"
    and mem: "d \<in> set (diagnosticsOf ?cfg sourceCode (boundaryScopes ?cfg sourceCode) (r, a, n))"
    by (rule runRule_origin)
  from mem diagnosticsOf_other_node [of ?cfg sourceCode "boundaryScopes ?cfg sourceCode" r a n]
  have kind: "(\<exists>k specs src. n = ImportDeclaration k specs src)
            \<or> (\<exists>callee args. n = CallExpression callee args)
            \<or> (\<exists>k src. n = ExportAllDeclaration k src)
            \<or> (\<exists>k decl specs src. n = ExportNamedDeclaration k decl specs src)"
    by auto
  from nodesOf_nodeAt [OF v] have at: "nodeAt (Program (body sourceCode)) (rev r) = Some n" .
  show False
  proof (cases "rev r")
    case Nil
    with at kind show False by auto
  next
    case (Cons i p)
    with at have i: "i < length (body sourceCode)" and p: "nodeAt (body sourceCode ! i) p = Some n"
      by (auto split: if_splits)
    from all i have "isDirectivePrologue (body sourceCode ! i)"
      by (simp add: list_all_length)
    from nodeAt_directive [OF this p] kind show False
      by auto
  qed
qed

text \<open>Every report carries the suggestions of the helper (lines 398-431).\<close>

lemma onProgramExit_suggest:
  "d \<in> set (onProgramExit cfg sourceCode st) \<Longrightarrow>
   suggest d = createServerOnlyMarkerSuggestion sourceCode"
  by (auto simp: onProgramExit_def reportSideEffectImports_def reportReexports_def
        reportBareRequires_def reportRequire_def reportImport_def report_def
        createSideEffectImportSuggestions_def createReexportSuggestions_def
        createRequireSuggestions_def createImportSuggestions_def
      split: if_splits)

lemma runRule_suggest:
  "d \<in> set (runRule globMatch options rawFilename sourceCode) \<Longrightarrow>
   suggest d = createServerOnlyMarkerSuggestion sourceCode"
  by (auto simp: runRule_def Let_def onProgramExit_suggest split: if_splits)

text \<open>
  Claim C7. For every suggestion of every diagnostic that the rule reports, for any
  file, path and configuration, when the text has no marker yet: the fix inserts the
  marker import at the start of the first statement that is not a directive
  prologue, and every statement before it is a directive prologue. A suggestion is
  built only for a report, and a file with a report has such a statement, so the
  case of a file whose statements are all directive prologues does not arise for an
  applied fix.
\<close>

theorem marker_fix_of_every_report:
  assumes "d \<in> set (runRule globMatch options rawFilename sourceCode)"
      and "s \<in> set (suggest d)"
      and "\<not> markerImportFrom True (getText sourceCode)"
  shows "\<exists>i < length (body sourceCode).
           suggestionFix s =
             \<lparr> fixRange = (fst (nodeRange sourceCode [i]), fst (nodeRange sourceCode [i])),
                fixText = markerImportText \<rparr>
         \<and> \<not> isDirectivePrologue (body sourceCode ! i)
         \<and> (\<forall>j < i. isDirectivePrologue (body sourceCode ! j))"
proof -
  from assms(1) have sug: "suggest d = createServerOnlyMarkerSuggestion sourceCode"
    by (rule runRule_suggest)
  with assms(2) have client: "\<not> hasUseClientDirective sourceCode"
    by (auto simp: createServerOnlyMarkerSuggestion_def)
  from assms(1) have some: "\<not> list_all isDirectivePrologue (body sourceCode)"
    by (rule diagnostic_needs_statement)
  from marker_fix_before_first_statement [OF client assms(3) some] obtain i where
    len: "i < length (body sourceCode)" and
    edit: "map suggestionFix (createServerOnlyMarkerSuggestion sourceCode) =
            [\<lparr> fixRange = (fst (nodeRange sourceCode [i]), fst (nodeRange sourceCode [i])),
               fixText = markerImportText \<rparr>]" and
    first: "\<not> isDirectivePrologue (body sourceCode ! i)" and
    before: "\<forall>j < i. isDirectivePrologue (body sourceCode ! j)"
    by (elim exE conjE)
  from assms(2) sug
  have "suggestionFix s \<in> set (map suggestionFix (createServerOnlyMarkerSuggestion sourceCode))"
    by (simp only: set_map image_eqI)
  then have "suggestionFix s =
      \<lparr> fixRange = (fst (nodeRange sourceCode [i]), fst (nodeRange sourceCode [i])),
         fixText = markerImportText \<rparr>"
    unfolding edit by simp
  with len first before show ?thesis
    by (intro exI [where x = i] conjI)
qed

theorem marker_fix_of_every_report_witness:
  "hd (runRule exampleGlob noOptions routesPath strictImportFile)
       \<in> set (runRule exampleGlob noOptions routesPath strictImportFile)
   \<and> hd (suggest (hd (runRule exampleGlob noOptions routesPath strictImportFile)))
       \<in> set (suggest (hd (runRule exampleGlob noOptions routesPath strictImportFile)))
   \<and> \<not> markerImportFrom True (getText strictImportFile)
   \<and> (\<exists>i < length (body strictImportFile).
         suggestionFix (hd (suggest (hd (runRule exampleGlob noOptions routesPath strictImportFile)))) =
           \<lparr> fixRange = (fst (nodeRange strictImportFile [i]), fst (nodeRange strictImportFile [i])),
              fixText = markerImportText \<rparr>
         \<and> \<not> isDirectivePrologue (body strictImportFile ! i)
         \<and> (\<forall>j < i. isDirectivePrologue (body strictImportFile ! j)))
   \<and> suggestionFix (hd (suggest (hd (runRule exampleGlob noOptions routesPath strictImportFile)))) =
       \<lparr> fixRange = (14, 14), fixText = markerImportText \<rparr>
   \<and> isDirectivePrologue (body strictImportFile ! 0)
   \<and> \<not> isDirectivePrologue (body strictImportFile ! 1)"
proof -
  have d: "hd (runRule exampleGlob noOptions routesPath strictImportFile)
             \<in> set (runRule exampleGlob noOptions routesPath strictImportFile)"
    by code_simp
  have s: "hd (suggest (hd (runRule exampleGlob noOptions routesPath strictImportFile)))
             \<in> set (suggest (hd (runRule exampleGlob noOptions routesPath strictImportFile)))"
    by code_simp
  have m: "\<not> markerImportFrom True (getText strictImportFile)"
    by code_simp
  have at: "suggestionFix (hd (suggest (hd (runRule exampleGlob noOptions routesPath strictImportFile)))) =
       \<lparr> fixRange = (14, 14), fixText = markerImportText \<rparr>"
    by code_simp
  have stmts: "isDirectivePrologue (body strictImportFile ! 0)"
              "\<not> isDirectivePrologue (body strictImportFile ! 1)"
    by code_simp+
  from marker_fix_of_every_report [OF d s m] d s m at stmts
  show ?thesis by (intro conjI)
qed

text \<open>
  The helper on its own, at a file whose statements are all directive prologues, which
  by \<open>diagnostic_needs_statement\<close> no report reaches: the text of
  \<open>onlyDirectivesFile\<close> has 13 characters and no marker, and the fallback of line 384
  places the marker import at offset 0.
\<close>

lemma marker_fallback_at_offset_zero:
  "list_all isDirectivePrologue (body onlyDirectivesFile)
   \<and> \<not> markerImportFrom True (getText onlyDirectivesFile)
   \<and> length (getText onlyDirectivesFile) = 13
   \<and> findServerOnlyMarkerInsertNode onlyDirectivesFile = None
   \<and> map suggestionFix (createServerOnlyMarkerSuggestion onlyDirectivesFile) =
       [\<lparr> fixRange = (0, 0), fixText = markerImportText \<rparr>]"
  by code_simp

end
